theory Spec2Isabelle
  imports Complex_Main
begin

section \<open>Data model (types.ts)\<close>

text \<open>
  JavaScript numbers are modelled as integers: fractions, floating-point rounding,
  \<open>NaN\<close> and exponent notation are outside the model. Strings are lists of
  characters; white space is the ASCII white space.
\<close>

datatype StatName = Strength | Dexterity | Constitution | Intelligence | Wisdom | Charisma

text \<open>\<open>Stats = {[key in StatName]?: number}\<close>: a key may be absent.\<close>

type_synonym Stats = "StatName \<rightharpoonup> int"

datatype ItemType = Weapon | Armor | Potion | Quest | Misc | Food | Key | Book | Currency

record Item =
  item_id :: string
  item_name :: string
  item_description :: string
  item_type :: ItemType
  item_quantity :: int

record DiceRollRequest =
  roll_id :: string
  statsToRoll :: "StatName list"
  roll_description :: string

record SingleStatRollResult =
  statName :: StatName
  diceValue :: int
  modifier :: int
  totalValue :: int

record DiceRollReport =
  rollId :: string
  rollDescription :: string
  results :: "SingleStatRollResult list"

subsection \<open>Constants (constants.ts)\<close>

definition BASE_STAT_VALUE :: int where
  "BASE_STAT_VALUE = 10"

definition XP_THRESHOLDS :: "int list" where
  "XP_THRESHOLDS = [0, 100, 300, 600, 1000, 1500, 2100, 2800, 3600, 4500]"

definition MAX_LEVEL :: nat where
  "MAX_LEVEL = length XP_THRESHOLDS"

definition BASE_HP_GAIN_PER_LEVEL :: int where
  "BASE_HP_GAIN_PER_LEVEL = 8"

section \<open>Values produced by JSON.parse\<close>

datatype json =
    JNull
  | JBool bool
  | JNum int
  | JStr string
  | JArr "json list"
  | JObj "(string \<times> json) list"

text \<open>
  Every payload handed to \<open>JSON.parse\<close> by the command parser starts with an opening
  brace (the capture group is \<open>{.*?}\<close>), so a successful parse is always an object.
  The parser is a parameter of the model: it maps a payload to the object's properties,
  or to \<open>None\<close> when \<open>JSON.parse\<close> throws a SyntaxError. In the property list the
  first binding of a key is the value of that property.
\<close>

type_synonym jobject = "(string \<times> json) list"

type_synonym json_parser = "string \<Rightarrow> jobject option"

definition get_prop :: "jobject \<Rightarrow> string \<Rightarrow> json option" where
  "get_prop obj k = map_of obj k"

section \<open>Inventory operations of \<open>_updateStateAndParseCommands\<close>\<close>

text \<open>\<open>Array.prototype.findIndex\<close>; the result \<open>-1\<close> is \<open>None\<close>.\<close>

fun findIndex :: "('a \<Rightarrow> bool) \<Rightarrow> 'a list \<Rightarrow> nat option" where
  "findIndex P [] = None"
| "findIndex P (x # xs) = (if P x then Some 0 else map_option Suc (findIndex P xs))"

definition stackableTypes :: "ItemType list" where
  "stackableTypes = [Potion, Misc, Food, Key, Currency]"

text \<open>Decimal rendering of a number inside a template string.\<close>

definition digit_char :: "nat \<Rightarrow> char" where
  "digit_char d = char_of (48 + d)"

function show_nat :: "nat \<Rightarrow> string" where
  "show_nat n = (if n < 10 then [digit_char n] else show_nat (n div 10) @ [digit_char (n mod 10)])"
  by pat_completeness auto
termination
  by (relation "measure id") auto

declare show_nat.simps [simp del]

definition show_int :: "int \<Rightarrow> string" where
  "show_int i = (if i < 0 then CHR ''-'' # show_nat (nat (- i)) else show_nat (nat i))"

text \<open>The validated payload of an AWARD_ITEM command (\<open>itemData\<close>).\<close>

record ItemAward =
  award_name :: string
  award_description :: string
  award_type :: ItemType
  award_quantity :: int

text \<open>
  The body of the AWARD_ITEM branch once \<open>itemData\<close> has passed validation.
  \<open>now\<close> is the value of \<open>Date.now()\<close>.
\<close>

definition award_item :: "int \<Rightarrow> ItemAward \<Rightarrow> Item list \<Rightarrow> Item list" where
  "award_item now itemData tempInventory =
     (let existingItemIndex =
            (if award_type itemData \<in> set stackableTypes
             then findIndex (\<lambda>item. item_name item = award_name itemData
                                   \<and> item_type item = award_type itemData) tempInventory
             else None)
      in case existingItemIndex of
           Some i \<Rightarrow>
             tempInventory[i := (tempInventory ! i)
               \<lparr>item_quantity := item_quantity (tempInventory ! i) + award_quantity itemData\<rparr>]
         | None \<Rightarrow>
             tempInventory @
               [\<lparr>item_id = award_name itemData @ ''-'' @ show_int now,
                 item_name = award_name itemData,
                 item_description = award_description itemData,
                 item_type = award_type itemData,
                 item_quantity = award_quantity itemData\<rparr>])"

text \<open>
  The body of the CONSUME_ITEM branch once \<open>itemData\<close> has passed validation:
  \<open>splice(itemIndex, 1)\<close> removes the entry.
\<close>

definition consume_item :: "string \<Rightarrow> int \<Rightarrow> Item list \<Rightarrow> Item list" where
  "consume_item cname cquantity tempInventory =
     (case findIndex (\<lambda>item. item_name item = cname) tempInventory of
        None \<Rightarrow> tempInventory
      | Some itemIndex \<Rightarrow>
          if item_quantity (tempInventory ! itemIndex) > cquantity
          then tempInventory[itemIndex := (tempInventory ! itemIndex)
                 \<lparr>item_quantity := item_quantity (tempInventory ! itemIndex) - cquantity\<rparr>]
          else if item_quantity (tempInventory ! itemIndex) = cquantity
          then take itemIndex tempInventory @ drop (Suc itemIndex) tempInventory
          else tempInventory)"

section \<open>Text helpers\<close>

definition isWhite :: "char \<Rightarrow> bool" where
  "isWhite c = (c \<in> set [CHR '' '', CHR 0x09, CHR 0x0A, CHR 0x0B, CHR 0x0C, CHR 0x0D])"

text \<open>\<open>String.prototype.trim\<close>.\<close>

definition trim :: "string \<Rightarrow> string" where
  "trim s = rev (dropWhile isWhite (rev (dropWhile isWhite s)))"

definition startsWith :: "string \<Rightarrow> string \<Rightarrow> bool" where
  "startsWith s p = (take (length p) s = p)"

definition endsWith :: "string \<Rightarrow> string \<Rightarrow> bool" where
  "endsWith s suf = (length suf \<le> length s \<and> drop (length s - length suf) s = suf)"

definition cleanPotentialUndefined :: "string \<Rightarrow> string" where
  "cleanPotentialUndefined text =
     (let undefinedSuffix = ''undefined'' in
      if endsWith text undefinedSuffix
      then trim (take (length text - length undefinedSuffix) text)
      else trim text)"

text \<open>ASCII lower-casing, for \<open>toLowerCase() === 'null'\<close>.\<close>

definition toLowerChar :: "char \<Rightarrow> char" where
  "toLowerChar c =
     (if 65 \<le> (of_char c :: nat) \<and> (of_char c :: nat) \<le> 90 then char_of ((of_char c :: nat) + 32) else c)"

definition toLowerCase :: "string \<Rightarrow> string" where
  "toLowerCase s = map toLowerChar s"

section \<open>The command patterns\<close>

text \<open>
  The eight regular expressions \<open>/SIGIL::({.*?})/s\<close>, named after their sigil, in the
  order in which \<open>_updateStateAndParseCommands\<close> runs them. Only
  \<open>FOCUS_PANEL_UPDATE_REGEX\<close> has the alternative \<open>|null\<close> in its group.
\<close>

datatype Command =
    PLAYER_HP_UPDATE
  | PLAYER_STATUS_UPDATE
  | DICE_ROLL_REQUEST
  | FOCUS_PANEL_UPDATE
  | AWARD_XP
  | AWARD_ITEM
  | CONSUME_ITEM
  | LEVEL_UP_INITIATE

fun sigil :: "Command \<Rightarrow> string" where
  "sigil PLAYER_HP_UPDATE = ''PLAYER_HP_UPDATE''"
| "sigil PLAYER_STATUS_UPDATE = ''PLAYER_STATUS_UPDATE''"
| "sigil DICE_ROLL_REQUEST = ''DICE_ROLL_REQUEST''"
| "sigil FOCUS_PANEL_UPDATE = ''FOCUS_PANEL_UPDATE''"
| "sigil AWARD_XP = ''AWARD_XP''"
| "sigil AWARD_ITEM = ''AWARD_ITEM''"
| "sigil CONSUME_ITEM = ''CONSUME_ITEM''"
| "sigil LEVEL_UP_INITIATE = ''LEVEL_UP_INITIATE''"

fun allows_null :: "Command \<Rightarrow> bool" where
  "allows_null FOCUS_PANEL_UPDATE = True"
| "allows_null _ = False"

text \<open>
  The lazy \<open>.*?}\<close> with the \<open>s\<close> flag: the shortest run of arbitrary characters that
  is followed by a closing brace. Returns the run with its brace, and the rest.
\<close>

fun lazy_to_brace :: "string \<Rightarrow> (string \<times> string) option" where
  "lazy_to_brace [] = None"
| "lazy_to_brace (c # cs) =
     (if c = CHR ''}'' then Some ([c], cs)
      else map_option (\<lambda>(body, rest). (c # body, rest)) (lazy_to_brace cs))"

text \<open>A match of the pattern that starts at the head of the text: capture group 1 and the rest.\<close>

definition match_here :: "Command \<Rightarrow> string \<Rightarrow> (string \<times> string) option" where
  "match_here k s =
     (let prefix = sigil k @ ''::'' in
      if \<not> startsWith s prefix then None
      else
        let r = drop (length prefix) s in
        case (if startsWith r ''{'' then lazy_to_brace (drop 1 r) else None) of
          Some (body, rest) \<Rightarrow> Some (CHR ''{'' # body, rest)
        | None \<Rightarrow>
            if allows_null k \<and> startsWith r ''null'' then Some (''null'', drop 4 r) else None)"

text \<open>
  \<open>text.match(REGEX)\<close> for a pattern without the \<open>g\<close> flag: the leftmost match.
  The result is the text before the match, capture group 1, and the text after the match.
\<close>

fun regex_exec :: "Command \<Rightarrow> string \<Rightarrow> (string \<times> string \<times> string) option" where
  "regex_exec k [] = None"
| "regex_exec k (c # cs) =
     (case match_here k (c # cs) of
        Some (payload, rest) \<Rightarrow> Some ([], payload, rest)
      | None \<Rightarrow> map_option (\<lambda>(before, payload, rest). (c # before, payload, rest)) (regex_exec k cs))"

text \<open>\<open>text.replace(REGEX, '')\<close>: removes the leftmost match only.\<close>

definition regex_replace :: "Command \<Rightarrow> string \<Rightarrow> string" where
  "regex_replace k s = (case regex_exec k s of None \<Rightarrow> s | Some (before, payload, rest) \<Rightarrow> before @ rest)"

section \<open>Payload validation\<close>

definition statNameOfString :: "string \<Rightarrow> StatName option" where
  "statNameOfString s =
     (if s = ''Strength'' then Some Strength
      else if s = ''Dexterity'' then Some Dexterity
      else if s = ''Constitution'' then Some Constitution
      else if s = ''Intelligence'' then Some Intelligence
      else if s = ''Wisdom'' then Some Wisdom
      else if s = ''Charisma'' then Some Charisma
      else None)"

text \<open>\<open>Object.values(StatName).includes(stat)\<close>: only a string of the enumeration is included.\<close>

fun stat_of_json :: "json \<Rightarrow> StatName option" where
  "stat_of_json (JStr s) = statNameOfString s"
| "stat_of_json _ = None"

definition itemTypeOfString :: "string \<Rightarrow> ItemType option" where
  "itemTypeOfString s =
     (if s = ''weapon'' then Some Weapon
      else if s = ''armor'' then Some Armor
      else if s = ''potion'' then Some Potion
      else if s = ''quest'' then Some Quest
      else if s = ''misc'' then Some Misc
      else if s = ''food'' then Some Food
      else if s = ''key'' then Some Key
      else if s = ''book'' then Some Book
      else if s = ''currency'' then Some Currency
      else None)"

fun itemType_of_json :: "json \<Rightarrow> ItemType option" where
  "itemType_of_json (JStr s) = itemTypeOfString s"
| "itemType_of_json _ = None"

text \<open>
  The test of the DICE_ROLL_REQUEST branch: \<open>statsToRoll\<close> is an array, it is not empty,
  every entry is a value of \<open>StatName\<close>, and \<open>description\<close> and \<open>id\<close> are strings.
\<close>

definition validate_dice :: "jobject \<Rightarrow> DiceRollRequest option" where
  "validate_dice obj =
     (case get_prop obj ''statsToRoll'' of
        Some (JArr stats) \<Rightarrow>
          if length stats > 0 \<and> list_all (\<lambda>stat. stat_of_json stat \<noteq> None) stats
          then (case get_prop obj ''description'' of
                  Some (JStr d) \<Rightarrow>
                    (case get_prop obj ''id'' of
                       Some (JStr i) \<Rightarrow>
                         Some \<lparr>roll_id = i, statsToRoll = map (the \<circ> stat_of_json) stats,
                               roll_description = d\<rparr>
                     | _ \<Rightarrow> None)
                | _ \<Rightarrow> None)
          else None
      | _ \<Rightarrow> None)"

text \<open>The test of the AWARD_ITEM branch.\<close>

definition validate_item_award :: "jobject \<Rightarrow> ItemAward option" where
  "validate_item_award obj =
     (case get_prop obj ''name'' of
        Some (JStr n) \<Rightarrow>
          (case get_prop obj ''description'' of
             Some (JStr d) \<Rightarrow>
               (case get_prop obj ''type'' of
                  Some ty \<Rightarrow>
                    (case itemType_of_json ty of
                       Some t \<Rightarrow>
                         (case get_prop obj ''quantity'' of
                            Some (JNum q) \<Rightarrow>
                              if q > 0
                              then Some \<lparr>award_name = n, award_description = d,
                                         award_type = t, award_quantity = q\<rparr>
                              else None
                          | _ \<Rightarrow> None)
                     | None \<Rightarrow> None)
                | None \<Rightarrow> None)
           | _ \<Rightarrow> None)
      | _ \<Rightarrow> None)"

record ItemConsumed =
  consumed_name :: string
  consumed_quantity :: int

text \<open>The test of the CONSUME_ITEM branch.\<close>

definition validate_item_consumed :: "jobject \<Rightarrow> ItemConsumed option" where
  "validate_item_consumed obj =
     (case get_prop obj ''name'' of
        Some (JStr n) \<Rightarrow>
          (case get_prop obj ''quantity'' of
             Some (JNum q) \<Rightarrow>
               if q > 0 then Some \<lparr>consumed_name = n, consumed_quantity = q\<rparr> else None
           | _ \<Rightarrow> None)
      | _ \<Rightarrow> None)"

subsection \<open>Coercion of the focus target's hit points\<close>

text \<open>\<open>String(v)\<close> for a value of JSON.parse; an array is its elements joined by commas.\<close>

fun intercalate :: "string \<Rightarrow> string list \<Rightarrow> string" where
  "intercalate sep [] = []"
| "intercalate sep [x] = x"
| "intercalate sep (x # y # ys) = x @ sep @ intercalate sep (y # ys)"

fun js_String :: "json \<Rightarrow> string" where
  "js_String JNull = ''null''"
| "js_String (JBool b) = (if b then ''true'' else ''false'')"
| "js_String (JNum n) = show_int n"
| "js_String (JStr s) = s"
| "js_String (JArr xs) = intercalate '','' (map (\<lambda>x. if x = JNull then [] else js_String x) xs)"
| "js_String (JObj fs) = ''[object Object]''"

definition isDigit :: "char \<Rightarrow> bool" where
  "isDigit c = (48 \<le> (of_char c :: nat) \<and> (of_char c :: nat) \<le> 57)"

definition digits_value :: "string \<Rightarrow> nat" where
  "digits_value ds = foldl (\<lambda>acc c. 10 * acc + ((of_char c :: nat) - 48)) 0 ds"

text \<open>\<open>parseInt(s, 10)\<close>; \<open>None\<close> is \<open>NaN\<close>.\<close>

definition parseInt10 :: "string \<Rightarrow> int option" where
  "parseInt10 s =
     (let t = dropWhile isWhite s;
          neg = (t \<noteq> [] \<and> hd t = CHR ''-'');
          u = (if t \<noteq> [] \<and> (hd t = CHR ''-'' \<or> hd t = CHR ''+'') then tl t else t);
          ds = takeWhile isDigit u
      in if ds = [] then None
         else Some (if neg then - int (digits_value ds) else int (digits_value ds)))"

definition set_prop :: "string \<Rightarrow> json \<Rightarrow> jobject \<Rightarrow> jobject" where
  "set_prop k v obj = map (\<lambda>(k', v'). if k' = k then (k', v) else (k', v')) obj"

definition del_prop :: "string \<Rightarrow> jobject \<Rightarrow> jobject" where
  "del_prop k obj = filter (\<lambda>(k', v'). k' \<noteq> k) obj"

text \<open>
  \<open>if (o.k !== undefined && typeof o.k !== 'number') o.k = parseInt(String(o.k), 10) || undefined\<close>.
  A property set to \<open>undefined\<close> is modelled as a removed property.
\<close>

definition coerce_number_prop :: "string \<Rightarrow> jobject \<Rightarrow> jobject" where
  "coerce_number_prop k obj =
     (case get_prop obj k of
        None \<Rightarrow> obj
      | Some (JNum n) \<Rightarrow> obj
      | Some v \<Rightarrow>
          (case parseInt10 (js_String v) of
             Some n \<Rightarrow> if n \<noteq> 0 then set_prop k (JNum n) obj else del_prop k obj
           | None \<Rightarrow> del_prop k obj))"

section \<open>\<open>_updateStateAndParseCommands\<close>\<close>

record XpAward =
  xp_amount :: int
  xp_reason :: string

text \<open>
  \<open>ProcessedAiCommandsResult\<close>. The fields that the function always initialises are
  not optional here; \<open>null\<close> and an absent field are \<open>None\<close>. A focus target is the
  object as parsed.
\<close>

record ProcessedAiCommandsResult =
  cleanedText :: string
  newHp :: int
  newMaxHp :: int
  newStatuses :: "json list"
  newFocusTargetInfo :: "jobject option"
  newDiceRollRequest :: "DiceRollRequest option"
  xpAward :: "XpAward option"
  levelUpInitiateReason :: "string option"
  itemAward :: "ItemAward option"
  itemConsumed :: "ItemConsumed option"
  newInventory :: "Item list"
  newCurrentXP :: int

subsection \<open>The eight \<open>try\<close> blocks\<close>

text \<open>
  Each function is the body of one \<open>try { ... } catch (e) { console.error(...) }\<close>:
  the exception of \<open>JSON.parse\<close> is the case \<open>None\<close>, and the handler leaves
  \<open>result\<close> as it is.
\<close>

definition apply_hp_update :: "json_parser \<Rightarrow> string \<Rightarrow> ProcessedAiCommandsResult \<Rightarrow> ProcessedAiCommandsResult" where
  "apply_hp_update parse payload result =
     (case parse payload of
        None \<Rightarrow> result
      | Some hpUpdate \<Rightarrow>
          let result1 = (case get_prop hpUpdate ''hp'' of
                           Some (JNum n) \<Rightarrow> result\<lparr>newHp := n\<rparr>
                         | _ \<Rightarrow> result)
          in (case get_prop hpUpdate ''maxHp'' of
                Some (JNum n) \<Rightarrow> result1\<lparr>newMaxHp := n\<rparr>
              | _ \<Rightarrow> result1))"

definition apply_status_update :: "json_parser \<Rightarrow> string \<Rightarrow> ProcessedAiCommandsResult \<Rightarrow> ProcessedAiCommandsResult" where
  "apply_status_update parse payload result =
     (case parse payload of
        None \<Rightarrow> result
      | Some statusUpdate \<Rightarrow>
          (case get_prop statusUpdate ''statuses'' of
             Some (JArr xs) \<Rightarrow> result\<lparr>newStatuses := xs\<rparr>
           | _ \<Rightarrow> result))"

definition apply_dice_request :: "json_parser \<Rightarrow> string \<Rightarrow> ProcessedAiCommandsResult \<Rightarrow> ProcessedAiCommandsResult" where
  "apply_dice_request parse payload result =
     (case parse payload of
        None \<Rightarrow> result
      | Some requestData \<Rightarrow>
          (case validate_dice requestData of
             Some req \<Rightarrow> result\<lparr>newDiceRollRequest := Some req\<rparr>
           | None \<Rightarrow> result))"

definition apply_focus_update :: "json_parser \<Rightarrow> string \<Rightarrow> ProcessedAiCommandsResult \<Rightarrow> ProcessedAiCommandsResult" where
  "apply_focus_update parse payload result =
     (if toLowerCase payload = ''null'' then result\<lparr>newFocusTargetInfo := None\<rparr>
      else
        (case parse payload of
           None \<Rightarrow> result
         | Some newFocusInfo \<Rightarrow>
             if newFocusInfo = [] then result\<lparr>newFocusTargetInfo := None\<rparr>
             else result\<lparr>newFocusTargetInfo :=
                    Some (coerce_number_prop ''maxHp'' (coerce_number_prop ''hp'' newFocusInfo))\<rparr>))"

definition apply_award_xp :: "json_parser \<Rightarrow> string \<Rightarrow> ProcessedAiCommandsResult \<Rightarrow> ProcessedAiCommandsResult" where
  "apply_award_xp parse payload result =
     (case parse payload of
        None \<Rightarrow> result
      | Some xpData \<Rightarrow>
          (case get_prop xpData ''amount'' of
             Some (JNum amount) \<Rightarrow>
               (case get_prop xpData ''reason'' of
                  Some (JStr reason) \<Rightarrow>
                    result\<lparr>xpAward := Some \<lparr>xp_amount = amount, xp_reason = reason\<rparr>,
                           newCurrentXP := newCurrentXP result + amount\<rparr>
                | _ \<Rightarrow> result)
           | _ \<Rightarrow> result))"

definition apply_award_item :: "json_parser \<Rightarrow> int \<Rightarrow> string \<Rightarrow> ProcessedAiCommandsResult \<Rightarrow> ProcessedAiCommandsResult" where
  "apply_award_item parse now payload result =
     (case parse payload of
        None \<Rightarrow> result
      | Some obj \<Rightarrow>
          (case validate_item_award obj of
             Some itemData \<Rightarrow>
               result\<lparr>itemAward := Some itemData,
                      newInventory := award_item now itemData (newInventory result)\<rparr>
           | None \<Rightarrow> result))"

definition apply_consume_item :: "json_parser \<Rightarrow> string \<Rightarrow> ProcessedAiCommandsResult \<Rightarrow> ProcessedAiCommandsResult" where
  "apply_consume_item parse payload result =
     (case parse payload of
        None \<Rightarrow> result
      | Some obj \<Rightarrow>
          (case validate_item_consumed obj of
             Some itemData \<Rightarrow>
               result\<lparr>itemConsumed := Some itemData,
                      newInventory := consume_item (consumed_name itemData)
                                        (consumed_quantity itemData) (newInventory result)\<rparr>
           | None \<Rightarrow> result))"

definition apply_level_up_initiate :: "json_parser \<Rightarrow> string \<Rightarrow> ProcessedAiCommandsResult \<Rightarrow> ProcessedAiCommandsResult" where
  "apply_level_up_initiate parse payload result =
     (case parse payload of
        None \<Rightarrow> result
      | Some levelUpData \<Rightarrow>
          (case get_prop levelUpData ''reason'' of
             Some (JStr reason) \<Rightarrow> result\<lparr>levelUpInitiateReason := Some reason\<rparr>
           | _ \<Rightarrow> result))"

fun command_body :: "json_parser \<Rightarrow> int \<Rightarrow> Command \<Rightarrow> string \<Rightarrow> ProcessedAiCommandsResult \<Rightarrow> ProcessedAiCommandsResult" where
  "command_body parse now PLAYER_HP_UPDATE = apply_hp_update parse"
| "command_body parse now PLAYER_STATUS_UPDATE = apply_status_update parse"
| "command_body parse now DICE_ROLL_REQUEST = apply_dice_request parse"
| "command_body parse now FOCUS_PANEL_UPDATE = apply_focus_update parse"
| "command_body parse now AWARD_XP = apply_award_xp parse"
| "command_body parse now AWARD_ITEM = apply_award_item parse now"
| "command_body parse now CONSUME_ITEM = apply_consume_item parse"
| "command_body parse now LEVEL_UP_INITIATE = apply_level_up_initiate parse"

subsection \<open>One block, and the whole function\<close>

text \<open>
  The shape shared by the eight blocks:
  \<^verbatim>\<open>
  const m = processedText.match(REGEX);
  if (m && m[1]) {
      try { ... } catch (e) { ... }
      processedText = processedText.replace(REGEX, '').trim();
  }
  \<close>
\<close>

definition run_command :: "json_parser \<Rightarrow> int \<Rightarrow> Command \<Rightarrow> string \<times> ProcessedAiCommandsResult \<Rightarrow> string \<times> ProcessedAiCommandsResult" where
  "run_command parse now k st =
     (case st of (processedText, result) \<Rightarrow>
        (case regex_exec k processedText of
           None \<Rightarrow> (processedText, result)
         | Some (before, payload, rest) \<Rightarrow>
             if payload \<noteq> []
             then (trim (regex_replace k processedText), command_body parse now k payload result)
             else (processedText, result)))"

text \<open>
  The arguments are those of the source, in its order; \<open>currentSnapshotDiceRollRequest\<close> is
  not read by the function. \<open>now\<close> is the value of \<open>Date.now()\<close>.
\<close>

definition updateStateAndParseCommands ::
  "json_parser \<Rightarrow> int \<Rightarrow> string \<Rightarrow> int \<Rightarrow> int \<Rightarrow> json list \<Rightarrow> jobject option
     \<Rightarrow> DiceRollRequest option \<Rightarrow> Item list \<Rightarrow> int \<Rightarrow> ProcessedAiCommandsResult" where
  "updateStateAndParseCommands parse now aiText currentSnapshotHp currentSnapshotMaxHp
       currentSnapshotStatuses currentSnapshotFocusTarget currentSnapshotDiceRollRequest
       currentSnapshotInventory currentSnapshotXP =
     (let processedText = cleanPotentialUndefined aiText;
          result = \<lparr>cleanedText = processedText,
                    newHp = currentSnapshotHp,
                    newMaxHp = currentSnapshotMaxHp,
                    newStatuses = currentSnapshotStatuses,
                    newFocusTargetInfo = currentSnapshotFocusTarget,
                    newDiceRollRequest = None,
                    xpAward = None,
                    levelUpInitiateReason = None,
                    itemAward = None,
                    itemConsumed = None,
                    newInventory = currentSnapshotInventory,
                    newCurrentXP = currentSnapshotXP\<rparr>;
          st1 = run_command parse now PLAYER_HP_UPDATE (processedText, result);
          st2 = run_command parse now PLAYER_STATUS_UPDATE st1;
          st3 = run_command parse now DICE_ROLL_REQUEST st2;
          st4 = run_command parse now FOCUS_PANEL_UPDATE st3;
          st5 = run_command parse now AWARD_XP st4;
          st6 = run_command parse now AWARD_ITEM st5;
          st7 = run_command parse now CONSUME_ITEM st6;
          st8 = run_command parse now LEVEL_UP_INITIATE st7
      in (snd st8)\<lparr>cleanedText := fst st8\<rparr>)"



definition initial_result ::
  "string \<Rightarrow> int \<Rightarrow> int \<Rightarrow> json list \<Rightarrow> jobject option \<Rightarrow> Item list \<Rightarrow> int \<Rightarrow> ProcessedAiCommandsResult" where
  "initial_result processedText hp maxHp statuses focus inventory xp =
     \<lparr>cleanedText = processedText, newHp = hp, newMaxHp = maxHp, newStatuses = statuses,
      newFocusTargetInfo = focus, newDiceRollRequest = None, xpAward = None,
      levelUpInitiateReason = None, itemAward = None, itemConsumed = None,
      newInventory = inventory, newCurrentXP = xp\<rparr>"

section \<open>A reference JSON parser for the examples\<close>

text \<open>
  The theorems below hold for every parser. To run examples, \<open>json_parse\<close> reads the
  part of JSON without \<open>\u\<close> escapes, fractions and exponents (texts that use them are
  rejected, so the examples stay away from them). A duplicate key keeps its last value.
  The first argument of the three mutually recursive functions bounds the nesting.
\<close>

definition json_ws :: "char \<Rightarrow> bool" where
  "json_ws c = (c \<in> set [CHR '' '', CHR 0x09, CHR 0x0A, CHR 0x0D])"

definition unescape :: "char \<Rightarrow> char option" where
  "unescape c =
     (if c = CHR 0x22 then Some (CHR 0x22)
      else if c = CHR 0x5C then Some (CHR 0x5C)
      else if c = CHR ''/'' then Some (CHR ''/'')
      else if c = CHR ''b'' then Some (CHR 0x08)
      else if c = CHR ''f'' then Some (CHR 0x0C)
      else if c = CHR ''n'' then Some (CHR 0x0A)
      else if c = CHR ''r'' then Some (CHR 0x0D)
      else if c = CHR ''t'' then Some (CHR 0x09)
      else None)"

text \<open>The characters of a string literal after its opening quote; the flag is set after a backslash.\<close>

fun string_body :: "bool \<Rightarrow> string \<Rightarrow> (string \<times> string) option" where
  "string_body esc [] = None"
| "string_body esc (c # cs) =
     (if esc then
        (case unescape c of
           None \<Rightarrow> None
         | Some ch \<Rightarrow> map_option (\<lambda>(x, r). (ch # x, r)) (string_body False cs))
      else if c = CHR 0x22 then Some ([], cs)
      else if c = CHR 0x5C then string_body True cs
      else if (of_char c :: nat) < 32 then None
      else map_option (\<lambda>(x, r). (c # x, r)) (string_body False cs))"

definition number_token :: "string \<Rightarrow> (int \<times> string) option" where
  "number_token s =
     (let neg = startsWith s ''-'';
          u = (if neg then drop 1 s else s);
          ds = takeWhile isDigit u;
          r = dropWhile isDigit u
      in if ds = [] \<or> (length ds > 1 \<and> hd ds = CHR ''0'') \<or> (r \<noteq> [] \<and> hd r \<in> set ''.eE'')
         then None
         else Some (if neg then - int (digits_value ds) else int (digits_value ds), r))"

fun json_value :: "nat \<Rightarrow> string \<Rightarrow> (json \<times> string) option"
  and json_elements :: "nat \<Rightarrow> string \<Rightarrow> (json list \<times> string) option"
  and json_members :: "nat \<Rightarrow> string \<Rightarrow> ((string \<times> json) list \<times> string) option" where
  "json_value 0 s = None"
| "json_value (Suc n) s =
     (let t = dropWhile json_ws s in
      if startsWith t ''null'' then Some (JNull, drop 4 t)
      else if startsWith t ''true'' then Some (JBool True, drop 4 t)
      else if startsWith t ''false'' then Some (JBool False, drop 5 t)
      else
        (case t of
           [] \<Rightarrow> None
         | c # cs \<Rightarrow>
             if c = CHR 0x22 then map_option (\<lambda>(x, r). (JStr x, r)) (string_body False cs)
             else if c = CHR ''['' then
               (if startsWith (dropWhile json_ws cs) '']''
                then Some (JArr [], drop 1 (dropWhile json_ws cs))
                else map_option (\<lambda>(xs, r). (JArr xs, r)) (json_elements n cs))
             else if c = CHR ''{'' then
               (if startsWith (dropWhile json_ws cs) ''}''
                then Some (JObj [], drop 1 (dropWhile json_ws cs))
                else map_option (\<lambda>(fs, r). (JObj fs, r)) (json_members n cs))
             else map_option (\<lambda>(i, r). (JNum i, r)) (number_token t)))"
| "json_elements 0 s = None"
| "json_elements (Suc n) s =
     (case json_value n s of
        None \<Rightarrow> None
      | Some (v, r) \<Rightarrow>
          (case dropWhile json_ws r of
             [] \<Rightarrow> None
           | c # cs \<Rightarrow>
               if c = CHR '']'' then Some ([v], cs)
               else if c = CHR '','' then map_option (\<lambda>(vs, r'). (v # vs, r')) (json_elements n cs)
               else None))"
| "json_members 0 s = None"
| "json_members (Suc n) s =
     (case dropWhile json_ws s of
        [] \<Rightarrow> None
      | c # cs \<Rightarrow>
          if c \<noteq> CHR 0x22 then None
          else
            (case string_body False cs of
               None \<Rightarrow> None
             | Some (key, r) \<Rightarrow>
                 if \<not> startsWith (dropWhile json_ws r) '':'' then None
                 else
                   (case json_value n (drop 1 (dropWhile json_ws r)) of
                      None \<Rightarrow> None
                    | Some (v, r2) \<Rightarrow>
                        (case dropWhile json_ws r2 of
                           [] \<Rightarrow> None
                         | d # ds \<Rightarrow>
                             if d = CHR ''}'' then Some ([(key, v)], ds)
                             else if d = CHR '','' then
                               map_option
                                 (\<lambda>(fs, r3). (if key \<in> set (map fst fs) then fs else (key, v) # fs, r3))
                                 (json_members n ds)
                             else None))))"

definition json_parse :: json_parser where
  "json_parse s =
     (case json_value (2 * length s + 2) s of
        Some (JObj fs, r) \<Rightarrow> if dropWhile json_ws r = [] then Some fs else None
      | _ \<Rightarrow> None)"

section \<open>Dice resolution (\<open>DiceRoller.performRoll\<close>)\<close>

text \<open>\<open>Math.floor((statValue - 10) / 2)\<close>; integer division rounds towards minus infinity.\<close>

definition ability_modifier :: "int \<Rightarrow> int" where
  "ability_modifier statValue = (statValue - 10) div 2"

text \<open>
  \<open>random i\<close> is the value of the \<open>i\<close>-th call of \<open>Math.random()\<close>, a real number
  (floating-point rounding of the product is not modelled). The number of calls made so
  far is threaded through the map over \<open>request.statsToRoll\<close>.
\<close>

fun roll_stats :: "(nat \<Rightarrow> real) \<Rightarrow> Stats \<Rightarrow> nat \<Rightarrow> StatName list \<Rightarrow> SingleStatRollResult list" where
  "roll_stats random characterStats calls [] = []"
| "roll_stats random characterStats calls (sn # rest) =
     (let statValue = (case characterStats sn of Some v \<Rightarrow> v | None \<Rightarrow> BASE_STAT_VALUE);
          m = ability_modifier statValue;
          d = 1 + \<lfloor>random calls * 20\<rfloor>
      in \<lparr>statName = sn, diceValue = d, modifier = m, totalValue = d + m\<rparr>
           # roll_stats random characterStats (Suc calls) rest)"

text \<open>The report that \<open>performRoll\<close> hands to \<open>onRollComplete\<close>.\<close>

definition performRoll :: "(nat \<Rightarrow> real) \<Rightarrow> DiceRollRequest \<Rightarrow> Stats \<Rightarrow> DiceRollReport" where
  "performRoll random request characterStats =
     \<lparr>rollId = roll_id request,
      rollDescription = roll_description request,
      results = roll_stats random characterStats 0 (statsToRoll request)\<rparr>"

section \<open>The state of \<open>ChatInterface\<close>\<close>

datatype GamePhase = CharacterCreation | Gameplay | Error | Loading | LoadPrompt

datatype Sender = User | Ai | System

record Skill =
  skill_name :: string
  skill_description :: string

record LevelUpPayload =
  chosenStatIncrease :: "StatName option"
  chosenAbility :: "Skill option"

text \<open>\<open>xpToNextLevel\<close> is a number or \<open>Infinity\<close>.\<close>

datatype threshold = Finite int | Infinity

text \<open>\<open>xp >= threshold\<close>.\<close>

fun xp_reaches :: "int \<Rightarrow> threshold \<Rightarrow> bool" where
  "xp_reaches xp (Finite t) = (xp \<ge> t)"
| "xp_reaches xp Infinity = False"

text \<open>The value of \<open>currentXP - currentXpToNextLevel\<close>, which is minus infinity at \<open>Infinity\<close>.\<close>

datatype xp_value = XP int | MinusInfinity

fun xp_debit :: "int \<Rightarrow> threshold \<Rightarrow> xp_value" where
  "xp_debit xp (Finite t) = XP (xp - t)"
| "xp_debit xp Infinity = MinusInfinity"

text \<open>\<open>v < 0 ? 0 : v\<close>.\<close>

fun floor_at_zero :: "xp_value \<Rightarrow> int" where
  "floor_at_zero (XP v) = (if v < 0 then 0 else v)"
| "floor_at_zero MinusInfinity = 0"

text \<open>
  The texts of the narrator's messages are Russian sentences built from the values below;
  a message of the narrator is modelled by the values it is built from.
\<close>

datatype SystemNote =
    XpGained int string
  | ItemGained string int
  | ItemUsed string int
  | LevelUpInitiated string
  | AlreadyAtMaxLevel string
  | MaxLevelReached
  | LevelReached nat "string option"
  | ReadyForNextLevel
  | RollMade DiceRollReport
  | StreamFailed
  | RegenRetry string nat
  | RegenGaveUp string

datatype MessageText = Plain string | Note SystemNote

record ChatMessage =
  msg_id :: string
  sender :: Sender
  msg_text :: MessageText
  finishReason :: "string option"
  isRegenerating :: bool

text \<open>
  The fields of \<open>Character\<close> that change during play; the others are copied from the
  \<open>initialCharacter\<close> property into every snapshot and are left out.
\<close>

record Character =
  char_hp :: int
  char_maxHp :: int
  char_stats :: Stats
  char_skills :: "Skill list"
  char_statuses :: "json list"
  char_inventory :: "Item list"
  char_level :: nat
  char_currentXP :: xp_value
  char_xpToNextLevel :: threshold

record SavedGame =
  saved_character :: Character
  saved_chatHistory :: "ChatMessage list"
  saved_focusTargetInfo :: "jobject option"

text \<open>
  The React state of the component, the two properties \<open>gamePhase\<close> and
  \<open>apiKeyAvailable\<close>, the mutable cell \<open>lastResolvedRollIdRef\<close>, and the trace of the
  snapshots that \<open>saveGameInternalLogic\<close> has written to local storage (latest last).
  Whether a chat session exists is a flag; the session itself belongs to the model provider.
\<close>

record ChatState =
  chatHistory :: "ChatMessage list"
  isAiTyping :: bool
  hasChatSession :: bool
  errorShown :: bool
  focusTargetInfo :: "jobject option"
  currentPlayerStatuses :: "json list"
  currentHp :: int
  currentMaxHp :: int
  currentStats :: Stats
  currentSkills :: "Skill list"
  currentLevel :: nat
  currentXP :: int
  currentXpToNextLevel :: threshold
  currentInventory :: "Item list"
  activeDiceRollRequest :: "DiceRollRequest option"
  isDiceInterfaceActive :: bool
  isLevelUpModalOpen :: bool
  lastResolvedRollIdRef :: "string option"
  gamePhase :: GamePhase
  apiKeyAvailable :: bool
  savedGames :: "SavedGame list"

definition MAX_AUTO_REGEN_RETRIES :: nat where
  "MAX_AUTO_REGEN_RETRIES = 2"

text \<open>
  \<open>addMessageToHistory\<close> for a message without an identifier of its own: \<open>mkId n\<close> is the
  identifier \<open>Date.now().toString() + Math.random()\<close> produced for the message at index \<open>n\<close>.
\<close>

definition addNote :: "(nat \<Rightarrow> string) \<Rightarrow> Sender \<Rightarrow> MessageText \<Rightarrow> ChatMessage list \<Rightarrow> ChatMessage list" where
  "addNote mkId who body history =
     history @ [\<lparr>msg_id = mkId (length history), sender = who, msg_text = body,
                 finishReason = None, isRegenerating = False\<rparr>]"

definition addPlaceholder :: "string \<Rightarrow> ChatMessage list \<Rightarrow> ChatMessage list" where
  "addPlaceholder aiMessageId history =
     history @ [\<lparr>msg_id = aiMessageId, sender = Ai, msg_text = Plain ''...'',
                 finishReason = None, isRegenerating = True\<rparr>]"

text \<open>\<open>saveGameInternalLogic\<close>: one write to local storage.\<close>

definition saveGameInternalLogic :: "Character \<Rightarrow> ChatMessage list \<Rightarrow> jobject option \<Rightarrow> SavedGame list \<Rightarrow> SavedGame list" where
  "saveGameInternalLogic characterToSave historyToSave focusTargetToSave written =
     written @ [\<lparr>saved_character = characterToSave, saved_chatHistory = historyToSave,
                 saved_focusTargetInfo = focusTargetToSave\<rparr>]"

section \<open>\<open>handleStreamAndProcessInternal\<close>\<close>

text \<open>
  A handler is a closure of one render: where the source reads a state variable, it reads
  the value of that render, whatever setters have been called since. The handlers below
  take the state of the render as \<open>c\<close> and the state they update as \<open>s\<close>; the cell
  \<open>lastResolvedRollIdRef\<close> and the history that a \<open>setChatHistory\<close> updater receives are
  read from \<open>s\<close>. The stream is given by its outcome: \<open>None\<close> when reading it throws,
  otherwise the concatenated text and the last finish reason. The rebuilt chat session,
  the token count and the timer that starts a regeneration are left out.
\<close>

definition finalizeMessage :: "string \<Rightarrow> string \<Rightarrow> string option \<Rightarrow> ChatMessage \<Rightarrow> ChatMessage" where
  "finalizeMessage aiMessageId finalTextForDisplay currentFinishReason msg =
     (if msg_id msg = aiMessageId
      then msg\<lparr>msg_text := Plain finalTextForDisplay, finishReason := currentFinishReason,
                isRegenerating := False\<rparr>
      else msg)"

definition failMessage :: "string \<Rightarrow> ChatMessage \<Rightarrow> ChatMessage" where
  "failMessage aiMessageId msg =
     (if msg_id msg = aiMessageId
      then msg\<lparr>msg_text := Note StreamFailed, sender := System, isRegenerating := False\<rparr>
      else msg)"

text \<open>\<open>!!processingResults.levelUpInitiateReason\<close>: an empty string is falsy.\<close>

definition reasonGiven :: "ProcessedAiCommandsResult \<Rightarrow> bool" where
  "reasonGiven r = (case levelUpInitiateReason r of Some reason \<Rightarrow> reason \<noteq> [] | None \<Rightarrow> False)"

definition shouldTriggerLevelUpModal :: "ChatState \<Rightarrow> ProcessedAiCommandsResult \<Rightarrow> bool" where
  "shouldTriggerLevelUpModal c r =
     (reasonGiven r \<or> (xp_reaches (newCurrentXP r) (currentXpToNextLevel c) \<and> currentLevel c < MAX_LEVEL))"

text \<open>
  The decrement \<open>tempInventory[itemIndex].quantity -= itemData.quantity\<close> of the
  CONSUME_ITEM block writes into the item object. The arrays are copies, but their objects
  are those of \<open>currentSnapshotInventory\<close>, unless the AWARD_ITEM block of the same call
  has put a fresh object at that index. \<open>snapshot_after_call\<close> is the snapshot array as
  the caller reads it once \<open>_updateStateAndParseCommands\<close> has returned.
\<close>

definition snapshot_after_call :: "Item list \<Rightarrow> ProcessedAiCommandsResult \<Rightarrow> Item list" where
  "snapshot_after_call snapshot r =
     (case itemConsumed r of
        None \<Rightarrow> snapshot
      | Some u \<Rightarrow>
          (case findIndex (\<lambda>item. item_name item = consumed_name u) snapshot of
             None \<Rightarrow> snapshot
           | Some i \<Rightarrow>
               let fresh =
                     (case itemAward r of
                        Some a \<Rightarrow>
                          award_type a \<in> set stackableTypes
                          \<and> findIndex (\<lambda>item. item_name item = award_name a
                                                \<and> item_type item = award_type a) snapshot = Some i
                      | None \<Rightarrow> False)
               in if \<not> fresh \<and> item_quantity (snapshot ! i) > consumed_quantity u
                  then snapshot[i := (snapshot ! i)
                         \<lparr>item_quantity := item_quantity (snapshot ! i) - consumed_quantity u\<rparr>]
                  else snapshot))"

definition systemMessagesToAdd :: "ChatState \<Rightarrow> ProcessedAiCommandsResult \<Rightarrow> SystemNote list" where
  "systemMessagesToAdd c r =
     (case xpAward r of Some a \<Rightarrow> [XpGained (xp_amount a) (xp_reason a)] | None \<Rightarrow> []) @
     (case itemAward r of Some a \<Rightarrow> [ItemGained (award_name a) (award_quantity a)] | None \<Rightarrow> []) @
     (case itemConsumed r of
        Some u \<Rightarrow>
          (case find (\<lambda>item. item_name item = consumed_name u)
                  (snapshot_after_call (currentInventory c) r) of
             Some originalItem \<Rightarrow>
               if item_quantity originalItem \<ge> consumed_quantity u
               then [ItemUsed (consumed_name u) (consumed_quantity u)] else []
           | None \<Rightarrow> [])
      | None \<Rightarrow> []) @
     (case levelUpInitiateReason r of
        Some reason \<Rightarrow> if reason \<noteq> [] then [LevelUpInitiated reason] else []
      | None \<Rightarrow> []) @
     (case levelUpInitiateReason r of
        Some reason \<Rightarrow>
          if shouldTriggerLevelUpModal c r \<and> \<not> currentLevel c < MAX_LEVEL \<and> reason \<noteq> []
          then [AlreadyAtMaxLevel reason] else []
      | None \<Rightarrow> [])"

definition conditionsForAutosave :: "ChatState \<Rightarrow> bool \<Rightarrow> bool" where
  "conditionsForAutosave c isPostDiceRollResponse =
     (gamePhase c = Gameplay \<and> apiKeyAvailable c
      \<and> (\<not> isDiceInterfaceActive c \<or> isPostDiceRollResponse)
      \<and> \<not> isLevelUpModalOpen c)"

definition regenNotes :: "int \<Rightarrow> string option \<Rightarrow> bool \<Rightarrow> nat \<Rightarrow> ChatMessage list" where
  "regenNotes now currentFinishReason isAutoRegen retryCountIfAuto =
     (case currentFinishReason of
        None \<Rightarrow> []
      | Some reason \<Rightarrow>
          if reason \<in> set [''MAX_TOKENS'', ''SAFETY'', ''RECITATION''] \<and> isAutoRegen
          then (if retryCountIfAuto < MAX_AUTO_REGEN_RETRIES
                then [\<lparr>msg_id = show_int now @ ''-sys-regen'', sender = System,
                        msg_text = Note (RegenRetry reason (retryCountIfAuto + 1)),
                        finishReason = None, isRegenerating = False\<rparr>]
                else [\<lparr>msg_id = show_int now @ ''-sys-regen-fail'', sender = System,
                        msg_text = Note (RegenGaveUp reason),
                        finishReason = None, isRegenerating = False\<rparr>])
          else [])"

definition handleStreamAndProcessInternal ::
  "json_parser \<Rightarrow> int \<Rightarrow> (nat \<Rightarrow> string) \<Rightarrow> ChatState \<Rightarrow> ChatState
     \<Rightarrow> (string \<times> string option) option \<Rightarrow> string \<Rightarrow> bool \<Rightarrow> nat \<Rightarrow> bool \<Rightarrow> ChatState" where
  "handleStreamAndProcessInternal parse now mkId c s stream aiMessageId isAutoRegen
       retryCountIfAuto isPostDiceRollResponse =
     (case stream of
        None \<Rightarrow>
          s\<lparr>chatHistory := map (failMessage aiMessageId) (chatHistory s),
            errorShown := True, isAiTyping := False\<rparr>
      | Some (completeAiResponseText, currentFinishReason) \<Rightarrow>
          (let finalCleanedAiText = cleanPotentialUndefined completeAiResponseText;
               processingResults =
                 updateStateAndParseCommands parse now finalCleanedAiText
                   (currentHp c) (currentMaxHp c) (currentPlayerStatuses c) (focusTargetInfo c)
                   (activeDiceRollRequest c) (currentInventory c) (currentXP c);
               opensModal = (shouldTriggerLevelUpModal c processingResults
                             \<and> currentLevel c < MAX_LEVEL);
               updatedHistory =
                 foldl (\<lambda>h n. addNote mkId System (Note n) h)
                   (map (finalizeMessage aiMessageId (cleanedText processingResults)
                           currentFinishReason) (chatHistory s))
                   (systemMessagesToAdd c processingResults);
               characterStateForSaveAndSession =
                 \<lparr>char_hp = newHp processingResults,
                  char_maxHp = newMaxHp processingResults,
                  char_stats = currentStats c,
                  char_skills = currentSkills c,
                  char_statuses = newStatuses processingResults,
                  char_inventory = newInventory processingResults,
                  char_level = currentLevel c,
                  char_currentXP = XP (newCurrentXP processingResults),
                  char_xpToNextLevel = currentXpToNextLevel c\<rparr>;
               activates =
                 (case newDiceRollRequest processingResults of
                    Some newRollReq \<Rightarrow> Some (roll_id newRollReq) \<noteq> lastResolvedRollIdRef s
                  | None \<Rightarrow> False);
               written =
                 (if conditionsForAutosave c isPostDiceRollResponse
                  then saveGameInternalLogic characterStateForSaveAndSession updatedHistory
                         (newFocusTargetInfo processingResults) (savedGames s)
                  else savedGames s)
           in s\<lparr>currentHp := newHp processingResults,
                currentMaxHp := newMaxHp processingResults,
                currentPlayerStatuses := newStatuses processingResults,
                focusTargetInfo := newFocusTargetInfo processingResults,
                currentInventory := newInventory processingResults,
                currentXP := newCurrentXP processingResults,
                isLevelUpModalOpen := (opensModal \<or> isLevelUpModalOpen s),
                chatHistory := updatedHistory
                                 @ regenNotes now currentFinishReason isAutoRegen retryCountIfAuto,
                activeDiceRollRequest :=
                  (if activates then newDiceRollRequest processingResults
                   else activeDiceRollRequest s),
                isDiceInterfaceActive := (activates \<or> isDiceInterfaceActive s),
                lastResolvedRollIdRef := (if activates then None else lastResolvedRollIdRef s),
                savedGames := written,
                isAiTyping := False\<rparr>))"

section \<open>\<open>handleSendMessage\<close> and \<open>handleDiceRollComplete\<close>\<close>

text \<open>
  \<open>now\<close> is \<open>Date.now()\<close> when the handler starts, \<open>later\<close> when the finished stream is
  processed. Both handlers run inside the render whose state is \<open>s\<close>.
\<close>

definition handleSendMessage ::
  "json_parser \<Rightarrow> int \<Rightarrow> int \<Rightarrow> (nat \<Rightarrow> string) \<Rightarrow> ChatState \<Rightarrow> string
     \<Rightarrow> (string \<times> string option) option \<Rightarrow> ChatState" where
  "handleSendMessage parse now later mkId s userInput stream =
     (if trim userInput = [] \<or> isAiTyping s \<or> \<not> hasChatSession s \<or> isDiceInterfaceActive s
      then s
      else
        (let aiMessageId = show_int now @ ''-ai-stream'';
             s1 = s\<lparr>lastResolvedRollIdRef := None,
                    chatHistory := addPlaceholder aiMessageId
                                     (addNote mkId User (Plain userInput) (chatHistory s)),
                    isAiTyping := True, errorShown := False\<rparr>
         in handleStreamAndProcessInternal parse later mkId s s1 stream aiMessageId True 0 False))"

definition handleDiceRollComplete ::
  "json_parser \<Rightarrow> int \<Rightarrow> int \<Rightarrow> (nat \<Rightarrow> string) \<Rightarrow> ChatState \<Rightarrow> DiceRollReport
     \<Rightarrow> (string \<times> string option) option \<Rightarrow> ChatState" where
  "handleDiceRollComplete parse now later mkId s report stream =
     (let s1 = s\<lparr>isDiceInterfaceActive := False,
                 activeDiceRollRequest := None,
                 lastResolvedRollIdRef := Some (rollId report),
                 chatHistory := addNote mkId System (Note (RollMade report)) (chatHistory s)\<rparr>
      in if \<not> hasChatSession s then s1\<lparr>errorShown := True\<rparr>
         else
           (let aiMessageId = show_int now @ ''-ai-response-after-roll'';
                s2 = s1\<lparr>isAiTyping := True, errorShown := False,
                        chatHistory := addPlaceholder aiMessageId (chatHistory s1)\<rparr>
            in handleStreamAndProcessInternal parse later mkId s s2 stream aiMessageId True 0 True))"

section \<open>\<open>handleLevelUpComplete\<close>\<close>

text \<open>\<open>stats[name] || BASE_STAT_VALUE\<close>: an absent score and the score 0 both give the base value.\<close>

definition stat_or_base :: "Stats \<Rightarrow> StatName \<Rightarrow> int" where
  "stat_or_base stats sn = (case stats sn of Some v \<Rightarrow> if v = 0 then BASE_STAT_VALUE else v | None \<Rightarrow> BASE_STAT_VALUE)"

text \<open>The chosen score gains one point when the score is present in the map.\<close>

definition increase_stat :: "Stats \<Rightarrow> StatName option \<Rightarrow> Stats" where
  "increase_stat stats chosen =
     (case chosen of
        None \<Rightarrow> stats
      | Some sn \<Rightarrow>
          (case stats sn of
             None \<Rightarrow> stats
           | Some v \<Rightarrow> stats(sn \<mapsto> stat_or_base stats sn + 1)))"

text \<open>\<open>(newLevel < MAX_LEVEL) ? XP_THRESHOLDS[newLevel] : Infinity\<close>.\<close>

definition next_threshold :: "nat \<Rightarrow> threshold" where
  "next_threshold newLevel = (if newLevel < MAX_LEVEL then Finite (XP_THRESHOLDS ! newLevel) else Infinity)"

definition handleLevelUpComplete :: "(nat \<Rightarrow> string) \<Rightarrow> ChatState \<Rightarrow> LevelUpPayload \<Rightarrow> ChatState" where
  "handleLevelUpComplete mkId s payload =
     (if currentLevel s \<ge> MAX_LEVEL
      then s\<lparr>chatHistory := addNote mkId System (Note MaxLevelReached) (chatHistory s),
             isLevelUpModalOpen := False\<rparr>
      else
        (let newLevel = currentLevel s + 1;
             newStats = increase_stat (currentStats s) (chosenStatIncrease payload);
             newSkills = currentSkills s @ (case chosenAbility payload of Some a \<Rightarrow> [a] | None \<Rightarrow> []);
             newCon = stat_or_base newStats Constitution;
             newConModifier = (newCon - 10) div 2;
             newMaxHpVal = currentMaxHp s + BASE_HP_GAIN_PER_LEVEL + newConModifier;
             newCurrentXPVal = xp_debit (currentXP s) (currentXpToNextLevel s);
             remainingXP = floor_at_zero newCurrentXPVal;
             newXpToNextLevelThreshold = next_threshold newLevel;
             history1 = addNote mkId System
                          (Note (LevelReached newLevel (map_option skill_name (chosenAbility payload))))
                          (chatHistory s);
             updatedCharacterForAI =
               \<lparr>char_hp = newMaxHpVal,
                char_maxHp = newMaxHpVal,
                char_stats = newStats,
                char_skills = newSkills,
                char_statuses = currentPlayerStatuses s,
                char_inventory = currentInventory s,
                char_level = newLevel,
                char_currentXP = newCurrentXPVal,
                char_xpToNextLevel = newXpToNextLevelThreshold\<rparr>;
             autosaveConditions =
               (gamePhase s = Gameplay \<and> apiKeyAvailable s
                \<and> \<not> isDiceInterfaceActive s \<and> \<not> isLevelUpModalOpen s);
             written =
               (if autosaveConditions
                then saveGameInternalLogic updatedCharacterForAI history1 (focusTargetInfo s) (savedGames s)
                else savedGames s);
             reopens = (xp_reaches remainingXP newXpToNextLevelThreshold \<and> newLevel < MAX_LEVEL)
         in s\<lparr>lastResolvedRollIdRef := None,
              currentStats := newStats,
              currentSkills := newSkills,
              currentMaxHp := newMaxHpVal,
              currentHp := newMaxHpVal,
              currentXP := remainingXP,
              currentXpToNextLevel := newXpToNextLevelThreshold,
              currentLevel := newLevel,
              chatHistory := (if reopens then addNote mkId System (Note ReadyForNextLevel) history1
                              else history1),
              isLevelUpModalOpen := reopens,
              savedGames := written\<rparr>))"

section \<open>The text input and the send button\<close>

text \<open>The \<open>disabled\<close> attributes of the input field and of the send button.\<close>

definition inputDisabled :: "ChatState \<Rightarrow> bool" where
  "inputDisabled s =
     (isAiTyping s \<or> \<not> apiKeyAvailable s \<or> isDiceInterfaceActive s
      \<or> list_ex isRegenerating (chatHistory s) \<or> isLevelUpModalOpen s)"

definition sendDisabled :: "ChatState \<Rightarrow> string \<Rightarrow> bool" where
  "sendDisabled s userInput =
     (isAiTyping s \<or> trim userInput = [] \<or> \<not> apiKeyAvailable s \<or> isDiceInterfaceActive s
      \<or> list_ex isRegenerating (chatHistory s) \<or> isLevelUpModalOpen s)"

text \<open>
  The two ways a player submits a turn: the Enter key in the input field (a disabled field
  receives no key event) and a click on the send button (a disabled button receives no click).
\<close>

datatype Submit = EnterKey | SendButton

definition playerSubmits ::
  "json_parser \<Rightarrow> int \<Rightarrow> int \<Rightarrow> (nat \<Rightarrow> string) \<Rightarrow> Submit \<Rightarrow> ChatState \<Rightarrow> string
     \<Rightarrow> (string \<times> string option) option \<Rightarrow> ChatState" where
  "playerSubmits parse now later mkId via s userInput stream =
     (case via of
        EnterKey \<Rightarrow>
          if \<not> inputDisabled s \<and> \<not> isAiTyping s \<and> \<not> isDiceInterfaceActive s
          then handleSendMessage parse now later mkId s userInput stream
          else s
      | SendButton \<Rightarrow>
          if \<not> sendDisabled s userInput
          then handleSendMessage parse now later mkId s userInput stream
          else s)"

section \<open>Values for the examples\<close>

definition example_sword :: Item where
  "example_sword = \<lparr>item_id = ''Sword-1'', item_name = ''Sword'', item_description = ''Sharp'',
                     item_type = Weapon, item_quantity = 1\<rparr>"

definition example_potion :: Item where
  "example_potion = \<lparr>item_id = ''Potion-1'', item_name = ''Potion'', item_description = ''Heals'',
                      item_type = Potion, item_quantity = 3\<rparr>"

definition example_request :: DiceRollRequest where
  "example_request = \<lparr>roll_id = ''r1'', statsToRoll = [Strength, Wisdom], roll_description = ''Lift the gate''\<rparr>"

text \<open>
  A character of level 2 with 350 experience points, 300 needed for level 3, a maximum of 20
  hit points and Constitution 14: the example of the specification.
\<close>

definition example_state :: ChatState where
  "example_state =
     \<lparr>chatHistory = [], isAiTyping = False, hasChatSession = True, errorShown = False,
      focusTargetInfo = None, currentPlayerStatuses = [], currentHp = 12, currentMaxHp = 20,
      currentStats = Map.empty(Strength \<mapsto> 12, Constitution \<mapsto> 14), currentSkills = [],
      currentLevel = 2, currentXP = 350, currentXpToNextLevel = Finite 300,
      currentInventory = [example_sword, example_potion], activeDiceRollRequest = None,
      isDiceInterfaceActive = False, isLevelUpModalOpen = False, lastResolvedRollIdRef = None,
      gamePhase = Gameplay, apiKeyAvailable = True, savedGames = []\<rparr>"

text \<open>The same character while the roll \<open>r1\<close> is awaited, and a report of that roll.\<close>

definition example_rolling_state :: ChatState where
  "example_rolling_state =
     example_state\<lparr>isDiceInterfaceActive := True, activeDiceRollRequest := Some example_request\<rparr>"

definition example_report :: DiceRollReport where
  "example_report = performRoll (\<lambda>i. 1 / 2) example_request (currentStats example_state)"




section \<open>Lemmas on the helpers\<close>

lemma findIndex_Some_iff:
  "findIndex P xs = Some i \<longleftrightarrow> i < length xs \<and> P (xs ! i) \<and> (\<forall>j<i. \<not> P (xs ! j))"
proof (induction xs arbitrary: i)
  case Nil
  then show ?case by simp
next
  case (Cons x xs)
  show ?case
  proof (cases "P x")
    case True
    then show ?thesis by (cases i) auto
  next
    case False
    show ?thesis
    proof (cases i)
      case 0
      with False show ?thesis by auto
    next
      case (Suc k)
      have "(\<forall>j<Suc k. \<not> P ((x # xs) ! j)) \<longleftrightarrow> (\<forall>j<k. \<not> P (xs ! j))"
        using False by (auto simp: less_Suc_eq_0_disj)
      with False Suc Cons.IH [of k] show ?thesis by auto
    qed
  qed
qed

lemma findIndex_None_iff: "findIndex P xs = None \<longleftrightarrow> (\<forall>x\<in>set xs. \<not> P x)"
  by (induction xs) auto

lemma validate_item_award_SomeD:
  "validate_item_award obj = Some d \<Longrightarrow>
     get_prop obj ''name'' = Some (JStr (award_name d)) \<and>
     get_prop obj ''description'' = Some (JStr (award_description d)) \<and>
     (\<exists>ty. get_prop obj ''type'' = Some ty \<and> itemType_of_json ty = Some (award_type d)) \<and>
     get_prop obj ''quantity'' = Some (JNum (award_quantity d)) \<and> 0 < award_quantity d"
  by (auto simp: validate_item_award_def split: option.splits json.splits if_splits)

lemma validate_item_consumed_SomeD:
  "validate_item_consumed obj = Some d \<Longrightarrow>
     get_prop obj ''name'' = Some (JStr (consumed_name d)) \<and>
     get_prop obj ''quantity'' = Some (JNum (consumed_quantity d)) \<and> 0 < consumed_quantity d"
  by (auto simp: validate_item_consumed_def split: option.splits json.splits if_splits)

lemma roll_stats_map: "map statName (roll_stats random stats calls sns) = sns"
  by (induction sns arbitrary: calls) (simp_all add: Let_def)

lemma d20_range:
  assumes "0 \<le> (x::real)" and "x < 1"
  shows "1 \<le> 1 + \<lfloor>x * 20\<rfloor> \<and> 1 + \<lfloor>x * 20\<rfloor> \<le> 20"
proof -
  have "0 \<le> x * 20" using assms(1) by simp
  then have lo: "0 \<le> \<lfloor>x * 20\<rfloor>" by simp
  have "x * 20 < 20" using assms(2) by simp
  then have "\<lfloor>x * 20\<rfloor> < 20" by (simp add: floor_less_iff)
  with lo show ?thesis by simp
qed

lemma ability_modifier_floor: "ability_modifier v = \<lfloor>(real_of_int v - 10) / 2\<rfloor>"
proof -
  have "\<lfloor>real_of_int (v - 10) / real_of_int 2\<rfloor> = (v - 10) div 2"
    by (rule floor_divide_of_int_eq)
  then show ?thesis by (simp add: ability_modifier_def)
qed

lemma roll_stats_each:
  assumes "\<forall>i. 0 \<le> random i \<and> random i < 1"
    and "res \<in> set (roll_stats random stats calls sns)"
  shows "1 \<le> diceValue res \<and> diceValue res \<le> 20
     \<and> modifier res = ability_modifier (case stats (statName res) of Some v \<Rightarrow> v | None \<Rightarrow> 10)
     \<and> totalValue res = diceValue res + modifier res"
  using assms(2)
proof (induction sns arbitrary: calls)
  case Nil
  then show ?case by simp
next
  case (Cons sn rest)
  from assms(1) have r: "0 \<le> random calls" "random calls < 1" by auto
  from Cons.prems consider
    (hd) "res = \<lparr>statName = sn,
             diceValue = 1 + \<lfloor>random calls * 20\<rfloor>,
             modifier = ability_modifier (case stats sn of Some v \<Rightarrow> v | None \<Rightarrow> BASE_STAT_VALUE),
             totalValue = 1 + \<lfloor>random calls * 20\<rfloor>
               + ability_modifier (case stats sn of Some v \<Rightarrow> v | None \<Rightarrow> BASE_STAT_VALUE)\<rparr>"
    | (tl) "res \<in> set (roll_stats random stats (Suc calls) rest)"
    by (auto simp: Let_def)
  then show ?case
  proof cases
    case hd
    then show ?thesis using d20_range [OF r] unfolding BASE_STAT_VALUE_def by simp
  next
    case tl
    then show ?thesis by (rule Cons.IH)
  qed
qed

lemma floor_at_zero_debit:
  "floor_at_zero (xp_debit xp thr) = (case thr of Finite t \<Rightarrow> max 0 (xp - t) | Infinity \<Rightarrow> 0)"
  by (cases thr) auto

lemma floor_at_zero_nonneg: "0 \<le> floor_at_zero v"
  by (cases v) auto

lemma stat_after_increase:
  assumes "stats Constitution = Some c" and "0 < c"
  shows "stat_or_base (increase_stat stats chosen) Constitution
           = (if chosen = Some Constitution then c + 1 else c)"
proof (cases chosen)
  case None
  with assms show ?thesis by (simp add: increase_stat_def stat_or_base_def)
next
  case (Some sn)
  show ?thesis
  proof (cases "sn = Constitution")
    case True
    with Some assms show ?thesis by (simp add: increase_stat_def stat_or_base_def)
  next
    case False
    with Some assms show ?thesis
      by (cases "stats sn") (simp_all add: increase_stat_def stat_or_base_def)
  qed
qed

lemma modal_blocks_submission:
  assumes "isLevelUpModalOpen s"
  shows "inputDisabled s \<and> sendDisabled s userInput
         \<and> playerSubmits parse now later mkId via s userInput stream = s"
  using assms by (cases via) (simp_all add: inputDisabled_def sendDisabled_def playerSubmits_def)
























section \<open>Command extraction\<close>






section \<open>Inventory\<close>

text \<open>
  C2. Awarding an item. For a payload that parses and passes the test of the AWARD_ITEM
  block (so the quantity is positive): when the category is potion, currency, key, food or
  misc and \<open>i\<close> is the first entry with the same name and the same category, that
  entry's quantity grows by the awarded quantity and the inventory keeps its length; when
  the category is weapon, armor, quest or book, a new entry is appended, whatever the
  inventory holds.
\<close>

theorem award_item_stacks_or_appends:
  assumes "parse payload = Some obj" and "validate_item_award obj = Some d"
  shows "0 < award_quantity d \<and>
    (award_type d \<in> {Potion, Currency, Key, Food, Misc}
       \<and> i < length (newInventory r)
       \<and> item_name (newInventory r ! i) = award_name d
       \<and> item_type (newInventory r ! i) = award_type d
       \<and> (\<forall>j<i. \<not> (item_name (newInventory r ! j) = award_name d
                    \<and> item_type (newInventory r ! j) = award_type d))
     \<longrightarrow> newInventory (apply_award_item parse now payload r) =
           (newInventory r)[i := (newInventory r ! i)
              \<lparr>item_quantity := item_quantity (newInventory r ! i) + award_quantity d\<rparr>]
         \<and> length (newInventory (apply_award_item parse now payload r)) = length (newInventory r)) \<and>
    (award_type d \<in> {Weapon, Armor, Quest, Book} \<longrightarrow>
       newInventory (apply_award_item parse now payload r) =
         newInventory r @
           [\<lparr>item_id = award_name d @ ''-'' @ show_int now, item_name = award_name d,
             item_description = award_description d, item_type = award_type d,
             item_quantity = award_quantity d\<rparr>])"
proof (intro conjI impI)
  show "0 < award_quantity d"
    using assms(2) validate_item_award_SomeD by blast
next
  assume ex: "award_type d \<in> {Potion, Currency, Key, Food, Misc}
       \<and> i < length (newInventory r)
       \<and> item_name (newInventory r ! i) = award_name d
       \<and> item_type (newInventory r ! i) = award_type d
       \<and> (\<forall>j<i. \<not> (item_name (newInventory r ! j) = award_name d
                    \<and> item_type (newInventory r ! j) = award_type d))"
  have mem: "award_type d \<in> set stackableTypes"
    using ex by (auto simp: stackableTypes_def)
  have fi: "findIndex (\<lambda>item. item_name item = award_name d \<and> item_type item = award_type d)
              (newInventory r) = Some i"
    using ex by (simp add: findIndex_Some_iff)
  show eq: "newInventory (apply_award_item parse now payload r) =
          (newInventory r)[i := (newInventory r ! i)
             \<lparr>item_quantity := item_quantity (newInventory r ! i) + award_quantity d\<rparr>]"
    using assms mem fi by (simp add: apply_award_item_def award_item_def)
  show "length (newInventory (apply_award_item parse now payload r)) = length (newInventory r)"
    by (simp add: eq)
next
  assume "award_type d \<in> {Weapon, Armor, Quest, Book}"
  then have "award_type d \<notin> set stackableTypes"
    by (auto simp: stackableTypes_def)
  then show "newInventory (apply_award_item parse now payload r) =
         newInventory r @
           [\<lparr>item_id = award_name d @ ''-'' @ show_int now, item_name = award_name d,
             item_description = award_description d, item_type = award_type d,
             item_quantity = award_quantity d\<rparr>]"
    using assms by (simp add: apply_award_item_def award_item_def)
qed

text \<open>
  The example of the specification: a potion awarded to an inventory that holds potions is
  added to that entry; a sword awarded to an inventory that holds a sword is a second entry.
\<close>

theorem award_item_stacks_or_appends_witness:
  \<open>json_parse ''{"name":"Potion","description":"Heals","type":"potion","quantity":1}''
      = Some [(''name'', JStr ''Potion''), (''description'', JStr ''Heals''),
              (''type'', JStr ''potion''), (''quantity'', JNum 1)]
   \<and> validate_item_award [(''name'', JStr ''Potion''), (''description'', JStr ''Heals''),
              (''type'', JStr ''potion''), (''quantity'', JNum 1)]
      = Some \<lparr>award_name = ''Potion'', award_description = ''Heals'', award_type = Potion,
               award_quantity = 1\<rparr>
   \<and> newInventory (apply_award_item json_parse 2
        ''{"name":"Potion","description":"Heals","type":"potion","quantity":1}''
        (initial_result [] 10 10 [] None [example_sword, example_potion] 0))
      = [example_sword, example_potion\<lparr>item_quantity := 4\<rparr>]
   \<and> json_parse ''{"name":"Sword","description":"Sharp","type":"weapon","quantity":1}''
      = Some [(''name'', JStr ''Sword''), (''description'', JStr ''Sharp''),
              (''type'', JStr ''weapon''), (''quantity'', JNum 1)]
   \<and> validate_item_award [(''name'', JStr ''Sword''), (''description'', JStr ''Sharp''),
              (''type'', JStr ''weapon''), (''quantity'', JNum 1)]
      = Some \<lparr>award_name = ''Sword'', award_description = ''Sharp'', award_type = Weapon,
               award_quantity = 1\<rparr>
   \<and> newInventory (apply_award_item json_parse 2
        ''{"name":"Sword","description":"Sharp","type":"weapon","quantity":1}''
        (initial_result [] 10 10 [] None [example_sword, example_potion] 0))
      = [example_sword, example_potion, example_sword\<lparr>item_id := ''Sword-2''\<rparr>]\<close>
proof -
  let ?pp = \<open>''{"name":"Potion","description":"Heals","type":"potion","quantity":1}''\<close>
  let ?po = "[(''name'', JStr ''Potion''), (''description'', JStr ''Heals''),
              (''type'', JStr ''potion''), (''quantity'', JNum 1)]"
  let ?pd = "\<lparr>award_name = ''Potion'', award_description = ''Heals'', award_type = Potion,
               award_quantity = 1\<rparr>"
  let ?sp = \<open>''{"name":"Sword","description":"Sharp","type":"weapon","quantity":1}''\<close>
  let ?so = "[(''name'', JStr ''Sword''), (''description'', JStr ''Sharp''),
              (''type'', JStr ''weapon''), (''quantity'', JNum 1)]"
  let ?sd = "\<lparr>award_name = ''Sword'', award_description = ''Sharp'', award_type = Weapon,
               award_quantity = 1\<rparr>"
  let ?r = "initial_result [] 10 10 [] None [example_sword, example_potion] 0"
  have p1: "json_parse ?pp = Some ?po" by code_simp
  have v1: "validate_item_award ?po = Some ?pd" by code_simp
  have p2: "json_parse ?sp = Some ?so" by code_simp
  have v2: "validate_item_award ?so = Some ?sd" by code_simp
  have inv: "newInventory ?r = [example_sword, example_potion]"
    by (simp add: initial_result_def)
  have a: "newInventory (apply_award_item json_parse 2 ?pp ?r) = [example_sword, example_potion\<lparr>item_quantity := 4\<rparr>]"
    using award_item_stacks_or_appends [where parse = json_parse and r = ?r and now = 2 and i = 1, OF p1 v1]
    by (simp add: initial_result_def example_sword_def example_potion_def)
  have s2: "show_int 2 = ''2''" by code_simp
  have b: "newInventory (apply_award_item json_parse 2 ?sp ?r) = [example_sword, example_potion, example_sword\<lparr>item_id := ''Sword-2''\<rparr>]"
    using award_item_stacks_or_appends [where parse = json_parse and r = ?r and now = 2, OF p2 v2]
    by (simp add: initial_result_def example_sword_def s2)
  from p1 v1 a p2 v2 b show ?thesis by blast
qed

text \<open>
  C3. Consuming an item. For a payload that parses and passes the test of the CONSUME_ITEM
  block, with \<open>i\<close> the first entry of that name (the category is not looked at): a
  requested quantity above the held one leaves the inventory as it is, an equal one removes
  the entry, a smaller one is subtracted from the entry. The failure branch is a branch of
  the function: nothing is thrown.
\<close>

theorem consume_item_by_name:
  assumes "parse payload = Some obj" and "validate_item_consumed obj = Some d"
    and "i < length (newInventory r)"
    and "item_name (newInventory r ! i) = consumed_name d"
    and "\<forall>j<i. item_name (newInventory r ! j) \<noteq> consumed_name d"
  shows "newInventory (apply_consume_item parse payload r) =
     (if consumed_quantity d > item_quantity (newInventory r ! i) then newInventory r
      else if consumed_quantity d = item_quantity (newInventory r ! i)
      then take i (newInventory r) @ drop (Suc i) (newInventory r)
      else (newInventory r)[i := (newInventory r ! i)
             \<lparr>item_quantity := item_quantity (newInventory r ! i) - consumed_quantity d\<rparr>])"
proof -
  have fi: "findIndex (\<lambda>item. item_name item = consumed_name d) (newInventory r) = Some i"
    using assms(3-5) by (simp add: findIndex_Some_iff)
  show ?thesis
    using assms(1,2) fi by (auto simp: apply_consume_item_def consume_item_def)
qed

text \<open>Five, three and two potions consumed out of three.\<close>

theorem consume_item_by_name_witness:
  \<open>json_parse ''{"name":"Potion","quantity":5}'' = Some [(''name'', JStr ''Potion''), (''quantity'', JNum 5)]
   \<and> validate_item_consumed [(''name'', JStr ''Potion''), (''quantity'', JNum 5)]
        = Some \<lparr>consumed_name = ''Potion'', consumed_quantity = 5\<rparr>
   \<and> newInventory (apply_consume_item json_parse ''{"name":"Potion","quantity":5}''
        (initial_result [] 10 10 [] None [example_sword, example_potion] 0)) = [example_sword, example_potion]
   \<and> newInventory (apply_consume_item json_parse ''{"name":"Potion","quantity":3}''
        (initial_result [] 10 10 [] None [example_sword, example_potion] 0)) = [example_sword]
   \<and> newInventory (apply_consume_item json_parse ''{"name":"Potion","quantity":2}''
        (initial_result [] 10 10 [] None [example_sword, example_potion] 0)) = [example_sword, example_potion\<lparr>item_quantity := 1\<rparr>]\<close>
proof -
  let ?r = "initial_result [] 10 10 [] None [example_sword, example_potion] 0"
  have p5: \<open>json_parse ''{"name":"Potion","quantity":5}'' = Some [(''name'', JStr ''Potion''), (''quantity'', JNum 5)]\<close>
    by code_simp
  have v5: "validate_item_consumed [(''name'', JStr ''Potion''), (''quantity'', JNum 5)]
        = Some \<lparr>consumed_name = ''Potion'', consumed_quantity = 5\<rparr>"
    by code_simp
  have p3: \<open>json_parse ''{"name":"Potion","quantity":3}'' = Some [(''name'', JStr ''Potion''), (''quantity'', JNum 3)]\<close>
    by code_simp
  have v3: "validate_item_consumed [(''name'', JStr ''Potion''), (''quantity'', JNum 3)]
        = Some \<lparr>consumed_name = ''Potion'', consumed_quantity = 3\<rparr>"
    by code_simp
  have p2: \<open>json_parse ''{"name":"Potion","quantity":2}'' = Some [(''name'', JStr ''Potion''), (''quantity'', JNum 2)]\<close>
    by code_simp
  have v2: "validate_item_consumed [(''name'', JStr ''Potion''), (''quantity'', JNum 2)]
        = Some \<lparr>consumed_name = ''Potion'', consumed_quantity = 2\<rparr>"
    by code_simp
  have a: \<open>newInventory (apply_consume_item json_parse ''{"name":"Potion","quantity":5}'' ?r) = [example_sword, example_potion]\<close>
    using consume_item_by_name [where parse = json_parse and r = ?r and i = 1, OF p5 v5]
    by (simp add: initial_result_def example_sword_def example_potion_def)
  have b: \<open>newInventory (apply_consume_item json_parse ''{"name":"Potion","quantity":3}'' ?r) = [example_sword]\<close>
    using consume_item_by_name [where parse = json_parse and r = ?r and i = 1, OF p3 v3]
    by (simp add: initial_result_def example_sword_def example_potion_def)
  have c: \<open>newInventory (apply_consume_item json_parse ''{"name":"Potion","quantity":2}'' ?r) = [example_sword, example_potion\<lparr>item_quantity := 1\<rparr>]\<close>
    using consume_item_by_name [where parse = json_parse and r = ?r and i = 1, OF p2 v2]
    by (simp add: initial_result_def example_sword_def example_potion_def)
  from p5 v5 a b c show ?thesis by blast
qed

section \<open>Dice resolution\<close>

text \<open>
  C7. For every request, every score map and every sequence of values of
  \<open>Math.random()\<close> in the interval from 0 (included) to 1 (excluded): the report carries the
  request's identifier and description; it has one result per requested ability, in the
  order requested; in each result the die value lies between 1 and 20, the modifier is
  \<open>floor((score - 10) / 2)\<close> of the character's score, which is 10 when the map has no
  score for the ability, and the total is the die value plus the modifier. The scores 10, 8, 16
  and 3 give the modifiers 0, -1, 3 and -4. The function has no failure branch.
\<close>

theorem performRoll_report:
  assumes "\<forall>i. 0 \<le> random i \<and> random i < 1"
  shows "rollId (performRoll random request stats) = roll_id request
     \<and> rollDescription (performRoll random request stats) = roll_description request
     \<and> length (results (performRoll random request stats)) = length (statsToRoll request)
     \<and> map statName (results (performRoll random request stats)) = statsToRoll request
     \<and> (\<forall>res \<in> set (results (performRoll random request stats)).
           1 \<le> diceValue res \<and> diceValue res \<le> 20
         \<and> modifier res = \<lfloor>(real_of_int (case stats (statName res) of Some v \<Rightarrow> v | None \<Rightarrow> 10) - 10) / 2\<rfloor>
         \<and> totalValue res = diceValue res + modifier res)
     \<and> ability_modifier 10 = 0 \<and> ability_modifier 8 = - 1
     \<and> ability_modifier 16 = 3 \<and> ability_modifier 3 = - 4"
proof -
  have len: "length (roll_stats random stats 0 (statsToRoll request)) = length (statsToRoll request)"
    using roll_stats_map [of random stats 0 "statsToRoll request"] by (metis length_map)
  have each: "\<forall>res \<in> set (results (performRoll random request stats)).
           1 \<le> diceValue res \<and> diceValue res \<le> 20
         \<and> modifier res = \<lfloor>(real_of_int (case stats (statName res) of Some v \<Rightarrow> v | None \<Rightarrow> 10) - 10) / 2\<rfloor>
         \<and> totalValue res = diceValue res + modifier res"
    using roll_stats_each [OF assms] by (simp add: performRoll_def ability_modifier_floor)
  have ex: "ability_modifier 10 = 0 \<and> ability_modifier 8 = - 1
     \<and> ability_modifier 16 = 3 \<and> ability_modifier 3 = - 4"
    by (simp add: ability_modifier_def)
  show ?thesis
    using len each ex by (simp add: performRoll_def roll_stats_map)
qed

text \<open>A roll on Strength 16 and on Wisdom, which the map does not hold.\<close>

theorem performRoll_report_witness:
  "performRoll (\<lambda>i. if i = 0 then 0 else 19 / 20) example_request (Map.empty(Strength \<mapsto> 16))
     = \<lparr>rollId = ''r1'', rollDescription = ''Lift the gate'',
        results = [\<lparr>statName = Strength, diceValue = 1, modifier = 3, totalValue = 4\<rparr>,
                   \<lparr>statName = Wisdom, diceValue = 20, modifier = 0, totalValue = 20\<rparr>]\<rparr>
   \<and> length (results (performRoll (\<lambda>i. if i = 0 then 0 else 19 / 20) example_request
                 (Map.empty(Strength \<mapsto> 16)))) = 2"
proof -
  have h: "\<forall>i. 0 \<le> (if i = 0 then 0 else 19 / 20 :: real) \<and> (if i = 0 then 0 else 19 / 20 :: real) < 1"
    by simp
  have a: "performRoll (\<lambda>i. if i = 0 then 0 else 19 / 20) example_request (Map.empty(Strength \<mapsto> 16))
     = \<lparr>rollId = ''r1'', rollDescription = ''Lift the gate'',
        results = [\<lparr>statName = Strength, diceValue = 1, modifier = 3, totalValue = 4\<rparr>,
                   \<lparr>statName = Wisdom, diceValue = 20, modifier = 0, totalValue = 20\<rparr>]\<rparr>"
    by (simp add: performRoll_def example_request_def ability_modifier_def BASE_STAT_VALUE_def Let_def)
  have b: "length (results (performRoll (\<lambda>i. if i = 0 then 0 else 19 / 20) example_request
                 (Map.empty(Strength \<mapsto> 16)))) = 2"
    using performRoll_report [OF h, of example_request "Map.empty(Strength \<mapsto> 16)"]
    by (simp add: example_request_def)
  from a b show ?thesis by blast
qed

section \<open>Level-up\<close>

text \<open>
  C5. Completing a level-up below the maximum level: the chosen score gains one point; the
  maximum of hit points grows by 8 plus \<open>floor((Con - 10) / 2)\<close>, where \<open>Con\<close> is the
  Constitution read after that increase (for a positive score \<open>con\<close>: \<open>con + 1\<close> when
  Constitution was chosen, \<open>con\<close> otherwise; an absent score counts as 10); the hit points
  are set to the new maximum; the experience is what is left after the threshold just
  cleared, and 0 when that is negative; the level grows by one; the next threshold is the
  entry of \<open>XP_THRESHOLDS\<close> at the new level, and \<open>Infinity\<close> when the table has no
  such entry.
\<close>

theorem level_up_math:
  assumes "currentLevel s < MAX_LEVEL"
  shows "currentStats (handleLevelUpComplete mkId s payload)
           = increase_stat (currentStats s) (chosenStatIncrease payload)
     \<and> currentMaxHp (handleLevelUpComplete mkId s payload)
           = currentMaxHp s + 8
             + \<lfloor>(real_of_int (stat_or_base (increase_stat (currentStats s) (chosenStatIncrease payload))
                                 Constitution) - 10) / 2\<rfloor>
     \<and> (currentStats s Constitution = Some con \<and> 0 < con \<longrightarrow>
          stat_or_base (increase_stat (currentStats s) (chosenStatIncrease payload)) Constitution
            = (if chosenStatIncrease payload = Some Constitution then con + 1 else con))
     \<and> currentHp (handleLevelUpComplete mkId s payload)
           = currentMaxHp (handleLevelUpComplete mkId s payload)
     \<and> currentXP (handleLevelUpComplete mkId s payload)
           = (case currentXpToNextLevel s of
                Finite cleared \<Rightarrow> max 0 (currentXP s - cleared)
              | Infinity \<Rightarrow> 0)
     \<and> 0 \<le> currentXP (handleLevelUpComplete mkId s payload)
     \<and> currentLevel (handleLevelUpComplete mkId s payload) = currentLevel s + 1
     \<and> currentXpToNextLevel (handleLevelUpComplete mkId s payload)
           = (if currentLevel s + 1 < length XP_THRESHOLDS
              then Finite (XP_THRESHOLDS ! (currentLevel s + 1)) else Infinity)"
proof -
  have nm: "\<not> MAX_LEVEL \<le> currentLevel s"
    using assms by simp
  have fl: "\<lfloor>(real_of_int v - 10) / 2\<rfloor> = (v - 10) div 2" for v :: int
  proof -
    have "\<lfloor>real_of_int (v - 10) / real_of_int 2\<rfloor> = (v - 10) div 2"
      by (rule floor_divide_of_int_eq)
    then show ?thesis by simp
  qed
  have con: "currentStats s Constitution = Some con \<and> 0 < con \<longrightarrow>
          stat_or_base (increase_stat (currentStats s) (chosenStatIncrease payload)) Constitution
            = (if chosenStatIncrease payload = Some Constitution then con + 1 else con)"
    using stat_after_increase by blast
  have st: "currentStats (handleLevelUpComplete mkId s payload)
           = increase_stat (currentStats s) (chosenStatIncrease payload)"
    using nm by (simp add: handleLevelUpComplete_def Let_def)
  have mh: "currentMaxHp (handleLevelUpComplete mkId s payload)
           = currentMaxHp s + 8
             + \<lfloor>(real_of_int (stat_or_base (increase_stat (currentStats s) (chosenStatIncrease payload))
                                 Constitution) - 10) / 2\<rfloor>"
    using nm by (simp add: handleLevelUpComplete_def Let_def fl BASE_HP_GAIN_PER_LEVEL_def)
  have hp: "currentHp (handleLevelUpComplete mkId s payload)
           = currentMaxHp (handleLevelUpComplete mkId s payload)"
    using nm by (simp add: handleLevelUpComplete_def Let_def)
  have xp: "currentXP (handleLevelUpComplete mkId s payload)
           = (case currentXpToNextLevel s of
                Finite cleared \<Rightarrow> max 0 (currentXP s - cleared)
              | Infinity \<Rightarrow> 0)"
    using nm by (simp add: handleLevelUpComplete_def Let_def floor_at_zero_debit)
  have nn: "0 \<le> currentXP (handleLevelUpComplete mkId s payload)"
    using nm by (simp add: handleLevelUpComplete_def Let_def floor_at_zero_nonneg)
  have lv: "currentLevel (handleLevelUpComplete mkId s payload) = currentLevel s + 1"
    using nm by (simp add: handleLevelUpComplete_def Let_def)
  have th: "currentXpToNextLevel (handleLevelUpComplete mkId s payload)
           = (if currentLevel s + 1 < length XP_THRESHOLDS
              then Finite (XP_THRESHOLDS ! (currentLevel s + 1)) else Infinity)"
    using nm by (simp add: handleLevelUpComplete_def Let_def next_threshold_def MAX_LEVEL_def)
  from st mh con hp xp nn lv th show ?thesis by blast
qed

text \<open>
  The example of the specification (20 hit points, Constitution 14: 30 hit points; 350
  experience points at the threshold 300: 50 left), and Constitution 15 raised to 16.
\<close>

theorem level_up_math_witness:
  "currentLevel example_state < MAX_LEVEL
   \<and> currentMaxHp (handleLevelUpComplete (\<lambda>n. ''m'') example_state
        \<lparr>chosenStatIncrease = Some Strength, chosenAbility = None\<rparr>) = 30
   \<and> currentHp (handleLevelUpComplete (\<lambda>n. ''m'') example_state
        \<lparr>chosenStatIncrease = Some Strength, chosenAbility = None\<rparr>) = 30
   \<and> currentXP (handleLevelUpComplete (\<lambda>n. ''m'') example_state
        \<lparr>chosenStatIncrease = Some Strength, chosenAbility = None\<rparr>) = 50
   \<and> currentXpToNextLevel (handleLevelUpComplete (\<lambda>n. ''m'') example_state
        \<lparr>chosenStatIncrease = Some Strength, chosenAbility = None\<rparr>) = Finite 600
   \<and> currentMaxHp (handleLevelUpComplete (\<lambda>n. ''m'')
        (example_state\<lparr>currentStats := Map.empty(Constitution \<mapsto> 15)\<rparr>)
        \<lparr>chosenStatIncrease = Some Constitution, chosenAbility = None\<rparr>) = 31"
proof -
  have lv: "currentLevel example_state < MAX_LEVEL"
    by (simp add: example_state_def MAX_LEVEL_def XP_THRESHOLDS_def)
  have lv2: "currentLevel (example_state\<lparr>currentStats := Map.empty(Constitution \<mapsto> 15)\<rparr>) < MAX_LEVEL"
    by (simp add: example_state_def MAX_LEVEL_def XP_THRESHOLDS_def)
  have c14: "stat_or_base (increase_stat (currentStats example_state) (Some Strength)) Constitution = 14"
    by (simp add: example_state_def increase_stat_def stat_or_base_def)
  have c16: "stat_or_base (increase_stat (Map.empty(Constitution \<mapsto> 15)) (Some Constitution)) Constitution = 16"
    by (simp add: increase_stat_def stat_or_base_def)
  have nth: "XP_THRESHOLDS ! 3 = 600"
    by (simp add: XP_THRESHOLDS_def)
  have a: "currentMaxHp (handleLevelUpComplete (\<lambda>n. ''m'') example_state
        \<lparr>chosenStatIncrease = Some Strength, chosenAbility = None\<rparr>) = 30
   \<and> currentHp (handleLevelUpComplete (\<lambda>n. ''m'') example_state
        \<lparr>chosenStatIncrease = Some Strength, chosenAbility = None\<rparr>) = 30
   \<and> currentXP (handleLevelUpComplete (\<lambda>n. ''m'') example_state
        \<lparr>chosenStatIncrease = Some Strength, chosenAbility = None\<rparr>) = 50
   \<and> currentXpToNextLevel (handleLevelUpComplete (\<lambda>n. ''m'') example_state
        \<lparr>chosenStatIncrease = Some Strength, chosenAbility = None\<rparr>) = Finite 600"
    using level_up_math [OF lv, of "\<lambda>n. ''m''" "\<lparr>chosenStatIncrease = Some Strength, chosenAbility = None\<rparr>" 14]
    by (simp add: c14 nth) (simp add: example_state_def XP_THRESHOLDS_def)
  have b: "currentMaxHp (handleLevelUpComplete (\<lambda>n. ''m'')
        (example_state\<lparr>currentStats := Map.empty(Constitution \<mapsto> 15)\<rparr>)
        \<lparr>chosenStatIncrease = Some Constitution, chosenAbility = None\<rparr>) = 31"
    using level_up_math [OF lv2, of "\<lambda>n. ''m''" "\<lparr>chosenStatIncrease = Some Constitution, chosenAbility = None\<rparr>" 15]
    by (simp add: c16) (simp add: example_state_def)
  from lv a b show ?thesis by blast
qed

text \<open>
  C6. When a level-up has been applied below the maximum level and the experience left
  reaches the new threshold while the new level is below the maximum, the level-up dialog
  is open in the resulting state; the input field and the send button are disabled there,
  and a submission by the Enter key or by the send button leaves the state as it is.
\<close>

theorem chained_level_up_reopens_modal:
  assumes "currentLevel s < MAX_LEVEL"
    and "currentLevel (handleLevelUpComplete mkId s payload) < MAX_LEVEL"
    and "xp_reaches (currentXP (handleLevelUpComplete mkId s payload))
           (currentXpToNextLevel (handleLevelUpComplete mkId s payload))"
  shows "isLevelUpModalOpen (handleLevelUpComplete mkId s payload)
     \<and> inputDisabled (handleLevelUpComplete mkId s payload)
     \<and> sendDisabled (handleLevelUpComplete mkId s payload) userInput
     \<and> playerSubmits parse now later mkId' via (handleLevelUpComplete mkId s payload) userInput stream
          = handleLevelUpComplete mkId s payload"
proof -
  have nm: "\<not> MAX_LEVEL \<le> currentLevel s"
    using assms(1) by simp
  have lv: "currentLevel (handleLevelUpComplete mkId s payload) = currentLevel s + 1"
    using nm by (simp add: handleLevelUpComplete_def Let_def)
  have xp: "currentXP (handleLevelUpComplete mkId s payload)
              = floor_at_zero (xp_debit (currentXP s) (currentXpToNextLevel s))"
    using nm by (simp add: handleLevelUpComplete_def Let_def)
  have th: "currentXpToNextLevel (handleLevelUpComplete mkId s payload)
              = next_threshold (currentLevel s + 1)"
    using nm by (simp add: handleLevelUpComplete_def Let_def)
  have "isLevelUpModalOpen (handleLevelUpComplete mkId s payload)
          = (xp_reaches (floor_at_zero (xp_debit (currentXP s) (currentXpToNextLevel s)))
               (next_threshold (currentLevel s + 1)) \<and> currentLevel s + 1 < MAX_LEVEL)"
    using nm by (simp add: handleLevelUpComplete_def Let_def)
  with assms(2,3) lv xp th have "isLevelUpModalOpen (handleLevelUpComplete mkId s payload)"
    by simp
  then show ?thesis
    using modal_blocks_submission by blast
qed

text \<open>With 1000 experience points at the threshold 300, 700 are left and 600 are needed.\<close>

theorem chained_level_up_reopens_modal_witness:
  "currentLevel (example_state\<lparr>currentXP := 1000\<rparr>) < MAX_LEVEL
   \<and> currentLevel (handleLevelUpComplete (\<lambda>n. ''m'') (example_state\<lparr>currentXP := 1000\<rparr>)
        \<lparr>chosenStatIncrease = Some Strength, chosenAbility = None\<rparr>) = 3
   \<and> currentXP (handleLevelUpComplete (\<lambda>n. ''m'') (example_state\<lparr>currentXP := 1000\<rparr>)
        \<lparr>chosenStatIncrease = Some Strength, chosenAbility = None\<rparr>) = 700
   \<and> currentXpToNextLevel (handleLevelUpComplete (\<lambda>n. ''m'') (example_state\<lparr>currentXP := 1000\<rparr>)
        \<lparr>chosenStatIncrease = Some Strength, chosenAbility = None\<rparr>) = Finite 600
   \<and> isLevelUpModalOpen (handleLevelUpComplete (\<lambda>n. ''m'') (example_state\<lparr>currentXP := 1000\<rparr>)
        \<lparr>chosenStatIncrease = Some Strength, chosenAbility = None\<rparr>)
   \<and> playerSubmits json_parse 1 2 (\<lambda>n. ''m'') SendButton
        (handleLevelUpComplete (\<lambda>n. ''m'') (example_state\<lparr>currentXP := 1000\<rparr>)
           \<lparr>chosenStatIncrease = Some Strength, chosenAbility = None\<rparr>)
        ''I open the door'' (Some (''The door opens.'', Some ''STOP''))
      = handleLevelUpComplete (\<lambda>n. ''m'') (example_state\<lparr>currentXP := 1000\<rparr>)
           \<lparr>chosenStatIncrease = Some Strength, chosenAbility = None\<rparr>"
proof -
  let ?s = "example_state\<lparr>currentXP := 1000\<rparr>"
  let ?p = "\<lparr>chosenStatIncrease = Some Strength, chosenAbility = None\<rparr>"
  let ?s' = "handleLevelUpComplete (\<lambda>n. ''m'') ?s ?p"
  have m: "MAX_LEVEL = 10"
    by (simp add: MAX_LEVEL_def XP_THRESHOLDS_def)
  have h1: "currentLevel ?s < MAX_LEVEL"
    by (simp add: example_state_def m)
  have lv: "currentLevel ?s' = 3"
    by (simp add: handleLevelUpComplete_def example_state_def m Let_def)
  have xp: "currentXP ?s' = 700"
    by (simp add: handleLevelUpComplete_def example_state_def m Let_def)
  have th: "currentXpToNextLevel ?s' = Finite 600"
    by (simp add: handleLevelUpComplete_def example_state_def m Let_def next_threshold_def XP_THRESHOLDS_def)
  have h2: "currentLevel ?s' < MAX_LEVEL"
    by (simp add: lv m)
  have h3: "xp_reaches (currentXP ?s') (currentXpToNextLevel ?s')"
    by (simp add: xp th)
  note T = chained_level_up_reopens_modal [OF h1 h2 h3,
      where parse = json_parse and now = 1 and later = 2 and mkId' = "\<lambda>n. ''m''" and via = SendButton
        and userInput = "''I open the door''" and stream = "Some (''The door opens.'', Some ''STOP'')"]
  from h1 lv xp th T show ?thesis by blast
qed

section \<open>Dice-roll requests\<close>




text \<open>
  C4. A roll is resolved with the report's identifier; the model's answer to the report is
  then processed. When that answer holds a valid request with the same identifier, no
  request is active afterwards and the dice interface stays closed; when the identifier
  differs, the request is the active one and the dice interface is open.
\<close>

theorem resolved_roll_id_is_suppressed:
  assumes "hasChatSession s"
    and "newDiceRollRequest
           (updateStateAndParseCommands parse later (cleanPotentialUndefined aiText)
              (currentHp s) (currentMaxHp s) (currentPlayerStatuses s) (focusTargetInfo s)
              (activeDiceRollRequest s) (currentInventory s) (currentXP s)) = Some req"
  shows "(roll_id req = rollId report \<longrightarrow>
            activeDiceRollRequest
              (handleDiceRollComplete parse now later mkId s report (Some (aiText, reason))) = None
          \<and> \<not> isDiceInterfaceActive
              (handleDiceRollComplete parse now later mkId s report (Some (aiText, reason))))
     \<and> (roll_id req \<noteq> rollId report \<longrightarrow>
            activeDiceRollRequest
              (handleDiceRollComplete parse now later mkId s report (Some (aiText, reason))) = Some req
          \<and> isDiceInterfaceActive
              (handleDiceRollComplete parse now later mkId s report (Some (aiText, reason))))"
  using assms
  by (simp add: handleDiceRollComplete_def handleStreamAndProcessInternal_def Let_def)

text \<open>After the roll \<open>r1\<close>: an answer that asks for \<open>r1\<close> again, and one that asks for \<open>r2\<close>.\<close>

theorem resolved_roll_id_is_suppressed_witness:
  \<open>hasChatSession example_rolling_state
   \<and> rollId example_report = ''r1''
   \<and> activeDiceRollRequest (handleDiceRollComplete json_parse 1 2 (\<lambda>n. ''m'') example_rolling_state
        example_report
        (Some (''The gate creaks. DICE_ROLL_REQUEST::{"id":"r1","statsToRoll":["Strength"],"description":"Lift the gate"}'',
               Some ''STOP''))) = None
   \<and> \<not> isDiceInterfaceActive (handleDiceRollComplete json_parse 1 2 (\<lambda>n. ''m'') example_rolling_state
        example_report
        (Some (''The gate creaks. DICE_ROLL_REQUEST::{"id":"r1","statsToRoll":["Strength"],"description":"Lift the gate"}'',
               Some ''STOP'')))
   \<and> activeDiceRollRequest (handleDiceRollComplete json_parse 1 2 (\<lambda>n. ''m'') example_rolling_state
        example_report
        (Some (''The gate rises. DICE_ROLL_REQUEST::{"id":"r2","statsToRoll":["Dexterity"],"description":"Slip under it"}'',
               Some ''STOP'')))
       = Some \<lparr>roll_id = ''r2'', statsToRoll = [Dexterity], roll_description = ''Slip under it''\<rparr>
   \<and> isDiceInterfaceActive (handleDiceRollComplete json_parse 1 2 (\<lambda>n. ''m'') example_rolling_state
        example_report
        (Some (''The gate rises. DICE_ROLL_REQUEST::{"id":"r2","statsToRoll":["Dexterity"],"description":"Slip under it"}'',
               Some ''STOP'')))\<close>
proof -
  let ?s = example_rolling_state
  let ?x = \<open>''The gate creaks. DICE_ROLL_REQUEST::{"id":"r1","statsToRoll":["Strength"],"description":"Lift the gate"}''\<close>
  let ?y = \<open>''The gate rises. DICE_ROLL_REQUEST::{"id":"r2","statsToRoll":["Dexterity"],"description":"Slip under it"}''\<close>
  let ?rx = "\<lparr>roll_id = ''r1'', statsToRoll = [Strength], roll_description = ''Lift the gate''\<rparr>"
  let ?ry = "\<lparr>roll_id = ''r2'', statsToRoll = [Dexterity], roll_description = ''Slip under it''\<rparr>"
  have h: "hasChatSession ?s"
    by (simp add: example_rolling_state_def example_state_def)
  have id: "rollId example_report = ''r1''"
    by (simp add: example_report_def performRoll_def example_request_def)
  have px: "newDiceRollRequest
           (updateStateAndParseCommands json_parse 2 (cleanPotentialUndefined ?x)
              (currentHp ?s) (currentMaxHp ?s) (currentPlayerStatuses ?s) (focusTargetInfo ?s)
              (activeDiceRollRequest ?s) (currentInventory ?s) (currentXP ?s)) = Some ?rx"
    by code_simp
  have py: "newDiceRollRequest
           (updateStateAndParseCommands json_parse 2 (cleanPotentialUndefined ?y)
              (currentHp ?s) (currentMaxHp ?s) (currentPlayerStatuses ?s) (focusTargetInfo ?s)
              (activeDiceRollRequest ?s) (currentInventory ?s) (currentXP ?s)) = Some ?ry"
    by code_simp
  have a: "activeDiceRollRequest (handleDiceRollComplete json_parse 1 2 (\<lambda>n. ''m'') ?s
        example_report (Some (?x, Some ''STOP''))) = None
   \<and> \<not> isDiceInterfaceActive (handleDiceRollComplete json_parse 1 2 (\<lambda>n. ''m'') ?s
        example_report (Some (?x, Some ''STOP'')))"
    using resolved_roll_id_is_suppressed [where parse = json_parse and report = example_report
        and now = 1 and mkId = "\<lambda>n. ''m''" and reason = "Some ''STOP''", OF h px]
    by (simp add: id)
  have b: "activeDiceRollRequest (handleDiceRollComplete json_parse 1 2 (\<lambda>n. ''m'') ?s
        example_report (Some (?y, Some ''STOP''))) = Some ?ry
   \<and> isDiceInterfaceActive (handleDiceRollComplete json_parse 1 2 (\<lambda>n. ''m'') ?s
        example_report (Some (?y, Some ''STOP'')))"
    using resolved_roll_id_is_suppressed [where parse = json_parse and report = example_report
        and now = 1 and mkId = "\<lambda>n. ''m''" and reason = "Some ''STOP''", OF h py]
    by (simp add: id)
  from h id a b show ?thesis by blast
qed

section \<open>Autosave\<close>

text \<open>
  C9. The test before the write reads the flags of the render in which the turn started.
  A turn that starts in active play with no roll and no level-up pending therefore always
  writes a snapshot, also when the very turn opens the dice interface (its text requests a
  roll) or the level-up dialog (the experience reaches the threshold): the snapshot is
  written while that roll or level-up awaits the player.
\<close>

theorem autosave_in_turn_that_opens_roll_or_level_up:
  assumes "gamePhase s = Gameplay" and "apiKeyAvailable s"
    and "\<not> isDiceInterfaceActive s" and "\<not> isLevelUpModalOpen s"
    and "hasChatSession s" and "\<not> isAiTyping s" and "trim userInput \<noteq> []"
  shows "length (savedGames (handleSendMessage parse now later mkId s userInput (Some (aiText, reason))))
           = Suc (length (savedGames s))
     \<and> (newDiceRollRequest
           (updateStateAndParseCommands parse later (cleanPotentialUndefined aiText)
              (currentHp s) (currentMaxHp s) (currentPlayerStatuses s) (focusTargetInfo s)
              (activeDiceRollRequest s) (currentInventory s) (currentXP s)) = Some req
         \<longrightarrow> isDiceInterfaceActive
               (handleSendMessage parse now later mkId s userInput (Some (aiText, reason)))
             \<and> activeDiceRollRequest
                 (handleSendMessage parse now later mkId s userInput (Some (aiText, reason))) = Some req)
     \<and> (xp_reaches
           (newCurrentXP
              (updateStateAndParseCommands parse later (cleanPotentialUndefined aiText)
                 (currentHp s) (currentMaxHp s) (currentPlayerStatuses s) (focusTargetInfo s)
                 (activeDiceRollRequest s) (currentInventory s) (currentXP s)))
           (currentXpToNextLevel s) \<and> currentLevel s < MAX_LEVEL
         \<longrightarrow> isLevelUpModalOpen
               (handleSendMessage parse now later mkId s userInput (Some (aiText, reason))))"
  using assms
  by (simp add: handleSendMessage_def handleStreamAndProcessInternal_def Let_def
      conditionsForAutosave_def saveGameInternalLogic_def shouldTriggerLevelUpModal_def)

text \<open>
  A turn whose answer requests a roll, for a character whose experience has reached the
  threshold: one snapshot is written, and both the dice interface and the dialog are open.
\<close>

theorem autosave_in_turn_that_opens_roll_or_level_up_witness:
  \<open>length (savedGames (handleSendMessage json_parse 1 2 (\<lambda>n. ''m'') example_state ''I jump''
      (Some (''You leap. DICE_ROLL_REQUEST::{"id":"r3","statsToRoll":["Dexterity"],"description":"Jump"}'',
             Some ''STOP'')))) = 1
   \<and> isDiceInterfaceActive (handleSendMessage json_parse 1 2 (\<lambda>n. ''m'') example_state ''I jump''
      (Some (''You leap. DICE_ROLL_REQUEST::{"id":"r3","statsToRoll":["Dexterity"],"description":"Jump"}'',
             Some ''STOP'')))
   \<and> isLevelUpModalOpen (handleSendMessage json_parse 1 2 (\<lambda>n. ''m'') example_state ''I jump''
      (Some (''You leap. DICE_ROLL_REQUEST::{"id":"r3","statsToRoll":["Dexterity"],"description":"Jump"}'',
             Some ''STOP'')))\<close>
proof -
  let ?t = \<open>''You leap. DICE_ROLL_REQUEST::{"id":"r3","statsToRoll":["Dexterity"],"description":"Jump"}''\<close>
  let ?rq = "\<lparr>roll_id = ''r3'', statsToRoll = [Dexterity], roll_description = ''Jump''\<rparr>"
  let ?r = "updateStateAndParseCommands json_parse 2 (cleanPotentialUndefined ?t)
              (currentHp example_state) (currentMaxHp example_state)
              (currentPlayerStatuses example_state) (focusTargetInfo example_state)
              (activeDiceRollRequest example_state) (currentInventory example_state)
              (currentXP example_state)"
  have g: "gamePhase example_state = Gameplay" "apiKeyAvailable example_state"
    "\<not> isDiceInterfaceActive example_state" "\<not> isLevelUpModalOpen example_state"
    "hasChatSession example_state" "\<not> isAiTyping example_state"
    by (simp_all add: example_state_def)
  have u: "trim ''I jump'' \<noteq> []"
    by code_simp
  have d: "newDiceRollRequest ?r = Some ?rq"
    by code_simp
  have x: "newCurrentXP ?r = 350"
    by code_simp
  have l: "xp_reaches (newCurrentXP ?r) (currentXpToNextLevel example_state)
           \<and> currentLevel example_state < MAX_LEVEL"
    by (simp add: x) (simp add: example_state_def MAX_LEVEL_def XP_THRESHOLDS_def)
  show ?thesis
    using autosave_in_turn_that_opens_roll_or_level_up [where parse = json_parse and now = 1
        and later = 2 and mkId = "\<lambda>n. ''m''" and aiText = ?t and reason = "Some ''STOP''"
        and req = ?rq, OF g u] d l
    by (simp add: example_state_def)
qed

text \<open>
  What the test before the write does guarantee: a turn writes a snapshot only when, in
  the render in which the turn started, the game was in active play, the API key was
  available, the level-up dialog was closed, and the dice interface was closed unless the
  turn is the answer to a roll.
\<close>

theorem autosave_only_under_render_flags:
  assumes "savedGames (handleStreamAndProcessInternal parse now mkId c s stream aiMessageId
                         isAutoRegen retryCountIfAuto isPostDiceRollResponse) \<noteq> savedGames s"
  shows "gamePhase c = Gameplay \<and> apiKeyAvailable c
     \<and> (isDiceInterfaceActive c \<longrightarrow> isPostDiceRollResponse)
     \<and> \<not> isLevelUpModalOpen c"
proof (cases stream)
  case None
  with assms show ?thesis
    by (simp add: handleStreamAndProcessInternal_def)
next
  case (Some out)
  obtain answer fr where "out = (answer, fr)"
    by (cases out)
  with Some assms have "conditionsForAutosave c isPostDiceRollResponse"
    by (auto simp: handleStreamAndProcessInternal_def Let_def split: if_splits)
  then show ?thesis
    by (auto simp: conditionsForAutosave_def)
qed

text \<open>An answer without commands, for a character at rest: the snapshot is written.\<close>

theorem autosave_only_under_render_flags_witness:
  "savedGames (handleStreamAndProcessInternal json_parse 2 (\<lambda>n. ''m'') example_state example_state
       (Some (''The door opens.'', Some ''STOP'')) ''a1'' True 0 False) \<noteq> savedGames example_state
   \<and> gamePhase example_state = Gameplay \<and> apiKeyAvailable example_state
   \<and> \<not> isDiceInterfaceActive example_state \<and> \<not> isLevelUpModalOpen example_state"
proof -
  have h: "savedGames (handleStreamAndProcessInternal json_parse 2 (\<lambda>n. ''m'') example_state example_state
       (Some (''The door opens.'', Some ''STOP'')) ''a1'' True 0 False) \<noteq> savedGames example_state"
    by (simp add: handleStreamAndProcessInternal_def Let_def conditionsForAutosave_def
        saveGameInternalLogic_def example_state_def)
  have d: "\<not> isDiceInterfaceActive example_state"
    by (simp add: example_state_def)
  from autosave_only_under_render_flags [OF h] h d show ?thesis by blast
qed

text \<open>
  \<open>handleLevelUpComplete\<close> tests the same flags of its render. The dialog calls it
  while \<open>isLevelUpModalOpen\<close> holds, so completing a level-up from the dialog writes no
  snapshot.
\<close>

theorem level_up_from_open_dialog_writes_no_snapshot:
  assumes "isLevelUpModalOpen s"
  shows "savedGames (handleLevelUpComplete mkId s payload) = savedGames s"
  using assms by (simp add: handleLevelUpComplete_def Let_def)

text \<open>The example character completes a level-up from the open dialog.\<close>

theorem level_up_from_open_dialog_writes_no_snapshot_witness:
  "isLevelUpModalOpen (example_state\<lparr>isLevelUpModalOpen := True\<rparr>)
   \<and> savedGames (handleLevelUpComplete (\<lambda>n. ''m'') (example_state\<lparr>isLevelUpModalOpen := True\<rparr>)
        \<lparr>chosenStatIncrease = Some Strength, chosenAbility = None\<rparr>) = []"
proof -
  have h: "isLevelUpModalOpen (example_state\<lparr>isLevelUpModalOpen := True\<rparr>)"
    by simp
  from level_up_from_open_dialog_writes_no_snapshot [OF h, of "\<lambda>n. ''m''"
      "\<lparr>chosenStatIncrease = Some Strength, chosenAbility = None\<rparr>"] h
  show ?thesis by (simp add: example_state_def)
qed

end
